theory Spec2Isabelle
  imports Complex_Main "HOL-Library.Multiset" "HOL-Library.Char_ord" "HOL-Library.List_Lexorder"
begin

section \<open>Exceptions and Python helpers\<close>

text \<open>
  The exception classes that the two source files raise or let escape. A call that raises
  returns \<open>Inl\<close> of its class, a call that returns normally returns \<open>Inr\<close> of its value.
\<close>

datatype error =
    ValueError | KeyError | AttributeError | IndexError | ValidationError
  | OverflowError | PyException | MultipleObjectsReturned | ObjectDoesNotExist

definition ebind :: "error + 'a \<Rightarrow> ('a \<Rightarrow> error + 'b) \<Rightarrow> error + 'b" where
  "ebind m f = (case m of Inl e \<Rightarrow> Inl e | Inr x \<Rightarrow> f x)"

text \<open>A list comprehension whose element expression may raise: the first exception escapes.\<close>

fun emap :: "('a \<Rightarrow> error + 'b) \<Rightarrow> 'a list \<Rightarrow> error + 'b list" where
  "emap f [] = Inr []"
| "emap f (x # xs) =
     (case f x of Inl e \<Rightarrow> Inl e
      | Inr y \<Rightarrow> (case emap f xs of Inl e \<Rightarrow> Inl e | Inr ys \<Rightarrow> Inr (y # ys)))"

text \<open>\<^verbatim>\<open>try: m  except caught: raise raised\<close>\<close>

definition reraise :: "error \<Rightarrow> error \<Rightarrow> error + 'a \<Rightarrow> error + 'a" where
  "reraise caught raised m =
     (case m of Inl e \<Rightarrow> (if e = caught then Inl raised else Inl e) | Inr x \<Rightarrow> Inr x)"

text \<open>
  A float64 value is a finite number, an infinity or NaN.
\<close>

datatype pyfloat = Finite real | PosInf | NegInf | NaN

text \<open>
  The stored band energies and occupations of the main model are finite numbers, reals.
  \<open>find_bandgap\<close> compares them, sorts them and subtracts two band energies; on finite
  floats the comparison is exact and the sign of a difference is the sign of the exact
  difference. Arrays that hold NaN or infinities are treated separately, in the section on
  non-finite band energies.

  The arithmetic on the occupations does depend on the rounding of float64 and, in Python 2,
  on whether the occupations are floats or integers (\<^verbatim>\<open>/\<close> is floor division between
  integers). It is a parameter of the model: \<open>add_half\<close> is \<^verbatim>\<open>num+.5\<close>, \<open>sub_half\<close> is
  \<^verbatim>\<open>num-.5\<close> and \<open>mean_occupation\<close> is
  \<^verbatim>\<open>sum([sum(i) for i in occupations])/num_kpoints\<close>, whose float sum can overflow.
\<close>

record arith =
  add_half :: "real \<Rightarrow> real"
  sub_half :: "real \<Rightarrow> real"
  mean_occupation :: "real list list \<Rightarrow> nat \<Rightarrow> pyfloat"

text \<open>\<^verbatim>\<open>int(x)\<close> on a float truncates towards zero.\<close>

definition py_int :: "real \<Rightarrow> int" where
  "py_int x = (if 0 \<le> x then \<lfloor>x\<rfloor> else \<lceil>x\<rceil>)"

text \<open>\<^verbatim>\<open>round(x)\<close> of Python 2 rounds half away from zero and returns a float.\<close>

definition py_round :: "real \<Rightarrow> real" where
  "py_round x = (if 0 \<le> x then of_int \<lfloor>x + 1 / 2\<rfloor> else of_int \<lceil>x - 1 / 2\<rceil>)"

text \<open>A Python value used as a condition: \<^verbatim>\<open>None\<close> and zero are false.\<close>

definition truthy :: "real option \<Rightarrow> bool" where
  "truthy v = (case v of None \<Rightarrow> False | Some x \<Rightarrow> x \<noteq> 0)"

text \<open>The builtins \<^verbatim>\<open>max\<close> and \<^verbatim>\<open>min\<close> on a list: ValueError on the empty list.\<close>

definition py_max :: "real list \<Rightarrow> error + real" where
  "py_max xs = (case xs of [] \<Rightarrow> Inl ValueError | x # ys \<Rightarrow> Inr (fold max ys x))"

definition py_min :: "real list \<Rightarrow> error + real" where
  "py_min xs = (case xs of [] \<Rightarrow> Inl ValueError | x # ys \<Rightarrow> Inr (fold min ys x))"

text \<open>
  Indexing a one-dimensional array with an integer: a negative index counts from the end,
  an index outside \<open>[-n, n)\<close> raises IndexError.
\<close>

definition np_index :: "'a list \<Rightarrow> int \<Rightarrow> error + 'a" where
  "np_index xs i =
     (if 0 \<le> i \<and> i < int (length xs) then Inr (xs ! nat i)
      else if - int (length xs) \<le> i \<and> i < 0 then Inr (xs ! nat (int (length xs) + i))
      else Inl IndexError)"

section \<open>The array container and \<open>BandsData.get_bands\<close>\<close>

text \<open>
  A stored array of band energies or occupations, as \<open>set_bands\<close> admits them:
  two-dimensional (k-points by bands) or three-dimensional (spins by k-points by bands),
  as nested rows. The rows of one array all have the same length. An \<open>farray\<close> holds finite
  numbers only.
\<close>

datatype 'e nparray = Arr2 "'e list list" | Arr3 "'e list list list"

type_synonym farray = "real nparray"

fun ndim :: "'e nparray \<Rightarrow> nat" where
  "ndim (Arr2 _) = 2"
| "ndim (Arr3 _) = 3"

datatype attrval = AttrStr string | AttrStrList "string list"

text \<open>
  The state of a \<open>BandsData\<close> node that the code under study reads and writes: the k-points
  (\<open>None\<close> while they are not set), the named arrays and the attributes.
\<close>

record 'arr bandsdata =
  kpoints :: "real list list option"
  arrays :: "string \<Rightarrow> 'arr option"
  attrs :: "string \<Rightarrow> attrval option"

text \<open>
  Modelled from the spec: \<open>ArrayData.get_array\<close>, \<open>ArrayData.set_array\<close>, \<open>Node.get_attr\<close>,
  \<open>Node._set_attr\<close> and \<open>KpointsData.get_kpoints\<close> belong to superclasses that are not among
  the sources. The spec calls them a generic array-container model: a finite map from names
  to arrays and one from names to attribute values. Reading an array that is not there raises
  KeyError and reading k-points that were never set raises AttributeError, the exceptions that
  \<open>get_bands\<close> and \<open>_validate_bands_occupations\<close> catch.
\<close>

definition get_array :: "'arr bandsdata \<Rightarrow> string \<Rightarrow> error + 'arr" where
  "get_array self name = (case arrays self name of None \<Rightarrow> Inl KeyError | Some a \<Rightarrow> Inr a)"

definition set_array :: "'arr bandsdata \<Rightarrow> string \<Rightarrow> 'arr \<Rightarrow> 'arr bandsdata" where
  "set_array self name a = self\<lparr>arrays := (arrays self)(name \<mapsto> a)\<rparr>"

definition set_attr :: "'arr bandsdata \<Rightarrow> string \<Rightarrow> attrval \<Rightarrow> 'arr bandsdata" where
  "set_attr self name v = self\<lparr>attrs := (attrs self)(name \<mapsto> v)\<rparr>"

definition get_kpoints :: "'arr bandsdata \<Rightarrow> error + real list list" where
  "get_kpoints self = (case kpoints self of None \<Rightarrow> Inl AttributeError | Some k \<Rightarrow> Inr k)"

text \<open>The property \<open>array_labels\<close>: \<^verbatim>\<open>self.get_attr('array_labels', None)\<close>.\<close>

definition array_labels :: "'arr bandsdata \<Rightarrow> attrval option" where
  "array_labels self = attrs self ''array_labels''"

text \<open>
  \<open>get_bands\<close> returns the bare bands array when nothing else is asked for, and otherwise
  the list \<open>to_return\<close> of the bands, the occupations and the labels that were asked for.
\<close>

datatype 'arr ret_item = ItemArray 'arr | ItemLabels "attrval option"

datatype 'arr bands_ret = Bands 'arr | BandsList "'arr ret_item list"

definition get_bands :: "'arr bandsdata \<Rightarrow> bool \<Rightarrow> bool \<Rightarrow> error + 'arr bands_ret" where
  "get_bands self also_occupations also_labels =
     ebind (reraise KeyError AttributeError (get_array self ''bands'')) (\<lambda>bands.
     ebind (if also_occupations
            then ebind (reraise KeyError AttributeError (get_array self ''occupations''))
                   (\<lambda>occupations. Inr [ItemArray bands, ItemArray occupations])
            else Inr [ItemArray bands]) (\<lambda>to_return1.
     let to_return = (if also_labels then to_return1 @ [ItemLabels (array_labels self)]
                      else to_return1)
     in if length to_return = 1 then Inr (Bands bands) else Inr (BandsList to_return)))"

section \<open>\<open>find_bandgap\<close>\<close>

text \<open>
  \<^verbatim>\<open>numpy.concatenate([_ for _ in stored], axis=1)\<close> on a three-dimensional array puts all
  spins on one row per k-point. With no spin array at all numpy raises ValueError.
\<close>

definition concatenate_axis1 :: "'e list list list \<Rightarrow> error + 'e list list" where
  "concatenate_axis1 spins =
     (case spins of [] \<Rightarrow> Inl ValueError
      | a # _ \<Rightarrow> Inr (map (\<lambda>k. concat (map (\<lambda>s. s ! k) spins)) [0..<length a]))"

definition join_spins :: "'e nparray \<Rightarrow> error + 'e list list" where
  "join_spins stored =
     (case stored of Arr3 spins \<Rightarrow> concatenate_axis1 spins | Arr2 b \<Rightarrow> Inr b)"

text \<open>\<open>nint\<close>, the local rounding function of \<open>find_bandgap\<close>.\<close>

definition nint :: "arith \<Rightarrow> real \<Rightarrow> int" where
  "nint ar num = (if num > 0 then py_int (add_half ar num) else py_int (sub_half ar num))"

text \<open>The result \<open>(is_insulator, gap)\<close>; the gap \<^verbatim>\<open>None\<close> is \<open>None\<close>.\<close>

type_synonym gap_result = "bool \<times> real option"

text \<open>
  The tail shared by the two analyses on occupations (source lines 134 to 146): an odd
  number of electrons without spin polarisation is a metal, otherwise the sign of
  \<^verbatim>\<open>min(lumo) - max(homo)\<close> decides. On finite energies the gap is a finite number or
  an infinity of the sign of the exact difference, so the last branch is reached with a
  positive gap only; \<open>classify_homo_lumo_f\<close> below is the same tail on energies that may be
  NaN or infinite, where the last branch is also reached with a gap that is NaN.
\<close>

definition classify_homo_lumo ::
  "farray \<Rightarrow> int \<Rightarrow> real list \<Rightarrow> real list \<Rightarrow> error + gap_result" where
  "classify_homo_lumo stored_bands number_electrons homo lumo =
     (if number_electrons mod 2 = 1 \<and> ndim stored_bands = 2 then Inr (False, None)
      else ebind (py_min lumo) (\<lambda>mn. ebind (py_max homo) (\<lambda>mx.
        let gap = mn - mx
        in if gap = 0 then Inr (False, Some 0)
           else if gap < 0 then Inr (False, None)
           else Inr (True, Some gap))))"

text \<open>
  Source lines 101 to 104: per k-point the pairs (energy, occupation) are sorted by energy
  with the stable \<^verbatim>\<open>sorted\<close>, and \<^verbatim>\<open>zip(*...)\<close> splits them again into a bands and an
  occupations array. \<^verbatim>\<open>zip\<close> stops at the shorter argument. When there is no k-point, or
  a k-point has no pair, the outer \<^verbatim>\<open>zip(*...)\<close> is empty and unpacking it into two names
  raises ValueError.
\<close>

definition sort_bands_occupations ::
  "real list list \<Rightarrow> real list list \<Rightarrow> error + (real list list \<times> real list list)" where
  "sort_bands_occupations bands occupations =
     (let per_kpoint = map (\<lambda>i. sort_key fst (zip (fst i) (snd i))) (zip bands occupations)
      in if per_kpoint = [] \<or> list_ex (\<lambda>j. j = []) per_kpoint then Inl ValueError
         else Inr (map (map fst) per_kpoint, map (map snd) per_kpoint))"

text \<open>
  \<^verbatim>\<open>int(round(x))\<close> on a float: \<^verbatim>\<open>round\<close> is exact, \<^verbatim>\<open>int\<close> raises ValueError on NaN
  and OverflowError on an infinity.
\<close>

definition int_of_round :: "pyfloat \<Rightarrow> error + int" where
  "int_of_round x =
     (case x of Finite r \<Rightarrow> Inr (py_int (py_round r)) | NaN \<Rightarrow> Inl ValueError
      | PosInf \<Rightarrow> Inl OverflowError | NegInf \<Rightarrow> Inl OverflowError)"

text \<open>Source line 105: the number of electrons deduced from the occupations.\<close>

definition deduce_number_electrons :: "arith \<Rightarrow> real list list \<Rightarrow> nat \<Rightarrow> error + int" where
  "deduce_number_electrons ar occupations num_kpoints =
     int_of_round (mean_occupation ar occupations num_kpoints)"

text \<open>
  Source line 107: the index of the last band of a k-point whose rounded occupation is
  positive; \<^verbatim>\<open>[-1]\<close> on an empty index array raises IndexError.
\<close>

definition homo_index :: "arith \<Rightarrow> real list \<Rightarrow> error + nat" where
  "homo_index ar x =
     (let w = filter (\<lambda>i. nint ar (x ! i) > 0) [0..<length x]
      in if w = [] then Inl IndexError else Inr (last w))"

text \<open>The analysis on the stored occupations (source lines 80 to 116).\<close>

definition bandgap_from_occupations ::
  "arith \<Rightarrow> farray bandsdata \<Rightarrow> farray \<Rightarrow> real list list \<Rightarrow> error + gap_result" where
  "bandgap_from_occupations ar bandsdata stored_bands bands0 =
     (let num_kpoints = length bands0 in
      ebind (reraise KeyError KeyError (get_bands bandsdata True False)) (\<lambda>ret.
      ebind (case ret of BandsList [_, ItemArray so] \<Rightarrow> Inr so | _ \<Rightarrow> Inl ValueError)
        (\<lambda>stored_occupations.
      ebind (join_spins stored_occupations) (\<lambda>occupations0.
      ebind (sort_bands_occupations bands0 occupations0) (\<lambda>bo.
      let bands = fst bo; occupations = snd bo in
      ebind (deduce_number_electrons ar occupations num_kpoints) (\<lambda>number_electrons.
      ebind (emap (homo_index ar) occupations) (\<lambda>homo_indexes.
      if card (set homo_indexes) > 1 then Inr (False, None)
      else
        ebind (emap (\<lambda>p. np_index (fst p) (int (snd p))) (zip bands homo_indexes)) (\<lambda>homo.
        ebind (reraise IndexError ValueError
                 (emap (\<lambda>p. np_index (fst p) (int (snd p) + 1)) (zip bands homo_indexes)))
          (\<lambda>lumo.
        classify_homo_lumo stored_bands number_electrons homo lumo)))))))))"

text \<open>
  The analysis on an explicit number of electrons (source lines 119 to 132). The file is
  Python 2: \<^verbatim>\<open>/\<close> between two ints is floor division.
\<close>

definition bandgap_from_electrons ::
  "farray \<Rightarrow> real list list \<Rightarrow> real \<Rightarrow> error + gap_result" where
  "bandgap_from_electrons stored_bands bands0 number_electrons0 =
     (let bands = map sort bands0;
          number_electrons = py_int number_electrons0;
          number_electrons_per_band = 4 - int (ndim stored_bands) in
      ebind (emap (\<lambda>i. np_index i (number_electrons div number_electrons_per_band - 1)) bands)
        (\<lambda>homo.
      ebind (reraise IndexError ValueError
               (emap (\<lambda>i. np_index i (number_electrons div number_electrons_per_band)) bands))
        (\<lambda>lumo.
      classify_homo_lumo stored_bands number_electrons homo lumo)))"

text \<open>
  \<^verbatim>\<open>bands.transpose()\<close> on the rows of a two-dimensional array: one row per band level.
  An array without k-points has no row here; every path below raises ValueError on it,
  as numpy and the builtins do.
\<close>

definition transpose_np :: "real list list \<Rightarrow> real list list" where
  "transpose_np a =
     (case a of [] \<Rightarrow> [] | r # _ \<Rightarrow> map (\<lambda>j. map (\<lambda>row. row ! j) a) [0..<length r])"

text \<open>The analysis on an explicit Fermi energy (source lines 149 to 184).\<close>

definition bandgap_from_fermi :: "real list list \<Rightarrow> real \<Rightarrow> error + gap_result" where
  "bandgap_from_fermi bands0 fermi_energy =
     (let bands = map sort bands0;
          levels = transpose_np bands in
      ebind (emap (\<lambda>i. ebind (py_max i) (\<lambda>mx. ebind (py_min i) (\<lambda>mn. Inr (mx, mn)))) levels)
        (\<lambda>max_mins.
      ebind (py_max (concat bands)) (\<lambda>bands_max.
      if fermi_energy > bands_max then Inl ValueError
      else
      ebind (py_min (concat bands)) (\<lambda>bands_min.
      if fermi_energy < bands_min then Inl ValueError
      else if list_ex (\<lambda>i. snd i < fermi_energy \<and> fermi_energy < fst i) max_mins
      then Inr (False, None)
      else if list_ex (\<lambda>i. fst i = fermi_energy) max_mins
              \<and> list_ex (\<lambda>i. snd i = fermi_energy) max_mins
      then Inr (False, Some 0)
      else
        ebind (py_max (map fst (filter (\<lambda>i. fst i < fermi_energy) max_mins))) (\<lambda>homo.
        ebind (py_min (map snd (filter (\<lambda>i. snd i > fermi_energy) max_mins))) (\<lambda>lumo.
        let gap = lumo - homo
        in if gap \<le> 0 then Inl PyException else Inr (True, Some gap)))))))"

text \<open>
  \<open>find_bandgap\<close> (source lines 18 to 184); its first argument is the arithmetic on the
  occupations.
\<close>

definition find_bandgap ::
  "arith \<Rightarrow> farray bandsdata \<Rightarrow> real option \<Rightarrow> real option \<Rightarrow> error + gap_result" where
  "find_bandgap ar bandsdata number_electrons fermi_energy =
     (if truthy fermi_energy \<and> truthy number_electrons then Inl ValueError
      else
      ebind (reraise KeyError KeyError (get_bands bandsdata False False)) (\<lambda>ret.
      ebind (case ret of Bands sb \<Rightarrow> Inr sb | BandsList _ \<Rightarrow> Inl ValueError) (\<lambda>stored_bands.
      ebind (join_spins stored_bands) (\<lambda>bands.
      case fermi_energy of
        None \<Rightarrow>
          (case number_electrons of
             None \<Rightarrow> bandgap_from_occupations ar bandsdata stored_bands bands
           | Some n \<Rightarrow> bandgap_from_electrons stored_bands bands n)
      | Some ef \<Rightarrow> bandgap_from_fermi bands ef))))"

section \<open>\<open>find_bandgap\<close> on band energies that are not finite\<close>

text \<open>
  \<open>set_bands\<close> accepts float64 arrays that hold NaN or infinities. This section embeds the
  call \<^verbatim>\<open>find_bandgap(bandsdata, number_electrons=n)\<close> on such arrays: the guard of line 56
  is false without a Fermi energy, and line 75 and line 79 lead to the analysis on the
  number of electrons (source lines 119 to 146).

  Comparison of floats: every comparison with NaN is false.
\<close>

fun float_less :: "pyfloat \<Rightarrow> pyfloat \<Rightarrow> bool" where
  "float_less (Finite a) (Finite b) = (a < b)"
| "float_less (Finite a) PosInf = True"
| "float_less NegInf (Finite b) = True"
| "float_less NegInf PosInf = True"
| "float_less _ _ = False"

text \<open>
  Subtraction of floats. The difference of two finite floats is given exactly; its rounding
  in float64 has the same sign.
\<close>

fun float_sub :: "pyfloat \<Rightarrow> pyfloat \<Rightarrow> pyfloat" where
  "float_sub (Finite a) (Finite b) = Finite (a - b)"
| "float_sub NaN _ = NaN"
| "float_sub _ NaN = NaN"
| "float_sub PosInf PosInf = NaN"
| "float_sub NegInf NegInf = NaN"
| "float_sub PosInf _ = PosInf"
| "float_sub NegInf _ = NegInf"
| "float_sub (Finite a) PosInf = NegInf"
| "float_sub (Finite a) NegInf = PosInf"

fun finite_value :: "pyfloat \<Rightarrow> real list" where
  "finite_value (Finite r) = [r]"
| "finite_value _ = []"

text \<open>\<^verbatim>\<open>numpy.sort\<close> on one row: ascending, with every NaN at the end.\<close>

definition np_sort_f :: "pyfloat list \<Rightarrow> pyfloat list" where
  "np_sort_f xs =
     filter (\<lambda>x. x = NegInf) xs @ map Finite (sort (concat (map finite_value xs)))
     @ filter (\<lambda>x. x = PosInf) xs @ filter (\<lambda>x. x = NaN) xs"

text \<open>
  The builtins \<^verbatim>\<open>min\<close> and \<^verbatim>\<open>max\<close> keep the first item and replace it by a later item
  that compares smaller, respectively greater.
\<close>

definition py_min_f :: "pyfloat list \<Rightarrow> error + pyfloat" where
  "py_min_f xs =
     (case xs of [] \<Rightarrow> Inl ValueError
      | x # ys \<Rightarrow> Inr (fold (\<lambda>item m. if float_less item m then item else m) ys x))"

definition py_max_f :: "pyfloat list \<Rightarrow> error + pyfloat" where
  "py_max_f xs =
     (case xs of [] \<Rightarrow> Inl ValueError
      | x # ys \<Rightarrow> Inr (fold (\<lambda>item m. if float_less m item then item else m) ys x))"

text \<open>Source lines 134 to 146 on such energies.\<close>

definition classify_homo_lumo_f ::
  "pyfloat nparray \<Rightarrow> int \<Rightarrow> pyfloat list \<Rightarrow> pyfloat list \<Rightarrow> error + bool \<times> pyfloat option"
  where
  "classify_homo_lumo_f stored_bands number_electrons homo lumo =
     (if number_electrons mod 2 = 1 \<and> ndim stored_bands = 2 then Inr (False, None)
      else ebind (py_min_f lumo) (\<lambda>mn. ebind (py_max_f homo) (\<lambda>mx.
        let gap = float_sub mn mx
        in if gap = Finite 0 then Inr (False, Some (Finite 0))
           else if float_less gap (Finite 0) then Inr (False, None)
           else Inr (True, Some gap))))"

text \<open>Source lines 119 to 132 on such energies.\<close>

definition bandgap_from_electrons_f ::
  "pyfloat nparray \<Rightarrow> pyfloat list list \<Rightarrow> real \<Rightarrow> error + bool \<times> pyfloat option" where
  "bandgap_from_electrons_f stored_bands bands0 number_electrons0 =
     (let bands = map np_sort_f bands0;
          number_electrons = py_int number_electrons0;
          number_electrons_per_band = 4 - int (ndim stored_bands) in
      ebind (emap (\<lambda>i. np_index i (number_electrons div number_electrons_per_band - 1)) bands)
        (\<lambda>homo.
      ebind (reraise IndexError ValueError
               (emap (\<lambda>i. np_index i (number_electrons div number_electrons_per_band)) bands))
        (\<lambda>lumo.
      classify_homo_lumo_f stored_bands number_electrons homo lumo)))"

definition find_bandgap_f ::
  "pyfloat nparray bandsdata \<Rightarrow> real \<Rightarrow> error + bool \<times> pyfloat option" where
  "find_bandgap_f bandsdata number_electrons =
     ebind (reraise KeyError KeyError (get_bands bandsdata False False)) (\<lambda>ret.
     ebind (case ret of Bands sb \<Rightarrow> Inr sb | BandsList _ \<Rightarrow> Inl ValueError) (\<lambda>stored_bands.
     ebind (join_spins stored_bands) (\<lambda>bands.
     bandgap_from_electrons_f stored_bands bands number_electrons)))"

section \<open>\<open>BandsData.set_bands\<close> and its validation\<close>

text \<open>
  The argument of \<open>set_bands\<close> after \<^verbatim>\<open>numpy.array(bands)\<close>: an array of any dimension with
  its shape, whether its dtype is float64, and its entries in the order of
  \<^verbatim>\<open>flatten()\<close>. An entry is a number (an object that \<^verbatim>\<open>float\<close> accepts), \<^verbatim>\<open>None\<close>, or an
  object on which \<^verbatim>\<open>float\<close> raises TypeError or ValueError.
\<close>

datatype dtype = Float64 | OtherDtype

datatype pyobj = Number real | NoneObj | NotANumber

record ndarray =
  shape :: "nat list"
  dtype :: dtype
  flat :: "pyobj list"

text \<open>
  The \<open>labels\<close> argument: a string, a tuple or list of objects that are strings or not, or
  an object of another type.
\<close>

datatype label_item = LStr string | LNotStr

datatype labels_arg = LabelString string | LabelSeq "label_item list" | LabelOther

fun is_basestring :: "label_item \<Rightarrow> bool" where
  "is_basestring (LStr _) = True"
| "is_basestring LNotStr = False"

text \<open>\<^verbatim>\<open>str(_)\<close> on the items of a sequence; the source applies it to strings only.\<close>

fun str_of_label :: "label_item \<Rightarrow> string" where
  "str_of_label (LStr s) = s"
| "str_of_label LNotStr = []"

text \<open>\<^verbatim>\<open>float(_)\<close> raises on the entry.\<close>

fun float_raises :: "pyobj \<Rightarrow> bool" where
  "float_raises NotANumber = True"
| "float_raises _ = False"

type_synonym validated = "ndarray \<times> ndarray option \<times> string list option"

definition validate_labels :: "ndarray \<Rightarrow> labels_arg option \<Rightarrow> error + string list option" where
  "validate_labels the_bands labels =
     (case labels of
        None \<Rightarrow> Inr None
      | Some l \<Rightarrow>
          ebind (case l of
                   LabelString s \<Rightarrow> Inr [s]
                 | LabelSeq ls \<Rightarrow>
                     if list_all is_basestring ls then Inr (map str_of_label ls)
                     else Inl ValidationError
                 | LabelOther \<Rightarrow> Inl ValidationError) (\<lambda>the_labels.
          if length (shape the_bands) = 2 \<and> length the_labels \<noteq> 1 then Inl ValidationError
          else if length (shape the_bands) = 3 \<and> length the_labels \<noteq> shape the_bands ! 0
          then Inl ValidationError
          else Inr (Some the_labels)))"

text \<open>
  \<open>_validate_bands_occupations\<close> (source lines 225 to 294). It reads \<open>self\<close> through
  \<open>get_kpoints\<close> only and assigns to nothing but locals.
\<close>

definition validate_bands_occupations ::
  "ndarray bandsdata \<Rightarrow> ndarray \<Rightarrow> ndarray option \<Rightarrow> labels_arg option \<Rightarrow> error + validated"
  where
  "validate_bands_occupations self the_bands occupations labels =
     ebind (reraise AttributeError AttributeError (get_kpoints self)) (\<lambda>kpts.
     if length (shape the_bands) \<notin> {2, 3} then Inl ValueError
     else
     let num_kpoints_from_bands =
           (if length (shape the_bands) = 2 then shape the_bands ! 0 else shape the_bands ! 1)
     in
     if num_kpoints_from_bands \<noteq> length kpts then Inl ValueError
     else
     ebind (case occupations of
              Some the_occupations \<Rightarrow>
                if shape the_occupations \<noteq> shape the_bands then Inl ValueError
                else Inr (if dtype the_bands \<noteq> Float64 then [the_occupations] else [])
            | None \<Rightarrow> Inr []) (\<lambda>checked0.
     let list_of_arrays_to_be_checked =
           checked0 @ (if dtype the_bands \<noteq> Float64 then [the_bands] else [])
     in
     if list_ex (\<lambda>x. list_ex float_raises (filter (\<lambda>e. e \<noteq> NoneObj) (flat x)))
          list_of_arrays_to_be_checked
     then Inl ValueError
     else
     ebind (validate_labels the_bands labels) (\<lambda>the_labels.
     Inr (the_bands, occupations, the_labels))))"

text \<open>The setter of \<open>units\<close> stores \<^verbatim>\<open>str(value)\<close>; the default value is \<^verbatim>\<open>None\<close>.\<close>

definition str_of_units :: "string option \<Rightarrow> string" where
  "str_of_units value = (case value of None \<Rightarrow> ''None'' | Some s \<Rightarrow> s)"

definition set_units :: "'arr bandsdata \<Rightarrow> string option \<Rightarrow> 'arr bandsdata" where
  "set_units self value = set_attr self ''units'' (AttrStr (str_of_units value))"

text \<open>
  \<open>set_bands\<close> (source lines 298 to 321) returns the exception that escaped, if any, and
  the state of the object afterwards.
\<close>

definition set_bands ::
  "ndarray bandsdata \<Rightarrow> ndarray \<Rightarrow> string option \<Rightarrow> ndarray option \<Rightarrow> labels_arg option
     \<Rightarrow> error option \<times> ndarray bandsdata" where
  "set_bands self bands units occupations labels =
     (case validate_bands_occupations self bands occupations labels of
        Inl e \<Rightarrow> (Some e, self)
      | Inr v \<Rightarrow>
          (let the_bands = fst v; the_occupations = fst (snd v); the_labels = snd (snd v);
               s1 = set_array self ''bands'' the_bands;
               s2 = set_units s1 units;
               s3 = (case the_labels of
                       Some l \<Rightarrow> set_attr s2 ''array_labels'' (AttrStrList l) | None \<Rightarrow> s2);
               s4 = (case the_occupations of
                       Some oc \<Rightarrow> set_array s3 ''occupations'' oc | None \<Rightarrow> s3)
           in (None, s4)))"

section \<open>\<open>BandsData.get_export_formats\<close>\<close>

text \<open>The names that the body of class \<open>BandsData\<close> binds, in source order.\<close>

definition bandsdata_class_names :: "string list" where
  "bandsdata_class_names =
     [''set_kpointsdata'', ''_validate_bands_occupations'', ''set_bands'', ''array_labels'',
      ''units'', ''_set_pbc'', ''get_bands'', ''_exportstring'', ''export'',
      ''get_export_formats'', ''_prepare_agr_batch'', ''_prepare_dat_1'', ''_prepare_dat_2'',
      ''_prepare_agr'', ''_prepare_json'']"

text \<open>
  \<^verbatim>\<open>dir(self)\<close>: the names of the class, of its superclasses and of the instance, each once,
  in alphabetical order. The superclasses are not among the sources, so the names that come
  from them and from the instance are a parameter.
\<close>

definition dir_names :: "string list \<Rightarrow> string list" where
  "dir_names inherited = sort (remdups (bandsdata_class_names @ inherited))"

definition startswith :: "string \<Rightarrow> string \<Rightarrow> bool" where
  "startswith s p = (take (length p) s = p)"

text \<open>
  \<^verbatim>\<open>s.split(sep)\<close> for a separator that is not empty: the pieces between the occurrences of
  \<open>sep\<close>, found from left to right.
\<close>

function split_str :: "string \<Rightarrow> string \<Rightarrow> string \<Rightarrow> string list" where
  "split_str sep acc [] = [rev acc]"
| "split_str sep acc (c # cs) =
     (if sep \<noteq> [] \<and> startswith (c # cs) sep
      then rev acc # split_str sep [] (drop (length sep) (c # cs))
      else split_str sep (c # acc) cs)"
  by pat_completeness auto
termination
  by (relation "measure (\<lambda>(sep, acc, s). length s)") auto

definition get_export_formats :: "string list \<Rightarrow> string list" where
  "get_export_formats inherited =
     map (\<lambda>i. split_str ''_prepare_'' [] i ! 1)
       (filter (\<lambda>i. startswith i ''_prepare_'') (dir_names inherited))"

section \<open>\<open>AiidaTestCase.tearDownClass\<close>\<close>

text \<open>
  The tables that the teardown touches. A link row holds the keys of the two node rows it
  joins; a user row is identified by its email.
\<close>

record db =
  workflows :: "nat list"
  groups :: "nat list"
  links :: "(nat \<times> nat) list"
  nodes :: "nat list"
  users :: "string list"
  computers :: "string list"

datatype statement =
  DeleteWorkflows | DeleteGroups | DeleteLinks | DeleteNodes | DeleteUser | DeleteComputers

text \<open>
  Modelled from the spec: the models \<open>DbWorkflow\<close>, \<open>DbGroup\<close>, \<open>DbLink\<close>, \<open>DbNode\<close>, \<open>DbUser\<close>
  and \<open>DbComputer\<close> are not among the sources. \<^verbatim>\<open>Model.objects.all().delete()\<close> empties the
  table of the model; \<^verbatim>\<open>objects.get(email=e)\<close> returns the one matching row, raises
  ObjectDoesNotExist when there is none and MultipleObjectsReturned when there are several.
\<close>

definition get_user :: "string \<Rightarrow> db \<Rightarrow> error + string" where
  "get_user email s =
     (case filter (\<lambda>u. u = email) (users s) of
        [] \<Rightarrow> Inl ObjectDoesNotExist
      | [u] \<Rightarrow> Inr u
      | _ \<Rightarrow> Inl MultipleObjectsReturned)"

fun exec_statement :: "string \<Rightarrow> statement \<Rightarrow> db \<Rightarrow> error + db" where
  "exec_statement email DeleteWorkflows s = Inr (s\<lparr>workflows := []\<rparr>)"
| "exec_statement email DeleteGroups s = Inr (s\<lparr>groups := []\<rparr>)"
| "exec_statement email DeleteLinks s = Inr (s\<lparr>links := []\<rparr>)"
| "exec_statement email DeleteNodes s = Inr (s\<lparr>nodes := []\<rparr>)"
| "exec_statement email DeleteUser s =
     (case get_user email s of
        Inl e \<Rightarrow> (if e = ObjectDoesNotExist then Inr s else Inl e)
      | Inr u \<Rightarrow> Inr (s\<lparr>users := filter (\<lambda>v. v \<noteq> u) (users s)\<rparr>))"
| "exec_statement email DeleteComputers s = Inr (s\<lparr>computers := []\<rparr>)"

text \<open>The statements of \<open>tearDownClass\<close> in source order (lines 43 to 67).\<close>

definition tearDownClass_body :: "statement list" where
  "tearDownClass_body =
     [DeleteWorkflows, DeleteGroups, DeleteLinks, DeleteNodes, DeleteUser, DeleteComputers]"

text \<open>
  The states the database goes through: the state before each statement that is reached,
  and the final state. An exception ends the run.
\<close>

fun run_trace :: "string \<Rightarrow> statement list \<Rightarrow> db \<Rightarrow> db list" where
  "run_trace email [] s = [s]"
| "run_trace email (st # sts) s =
     s # (case exec_statement email st s of Inl e \<Rightarrow> [] | Inr s' \<Rightarrow> run_trace email sts s')"

definition tearDownClass :: "string \<Rightarrow> db \<Rightarrow> db list" where
  "tearDownClass email s = run_trace email tearDownClass_body s"

section \<open>Example data\<close>

text \<open>
  Exact arithmetic on the occupations: the float operations without their rounding.
\<close>

definition exact_arith :: arith where
  "exact_arith =
     \<lparr>add_half = (\<lambda>x. x + 1 / 2), sub_half = (\<lambda>x. x - 1 / 2),
      mean_occupation = (\<lambda>occupations num_kpoints.
         Finite (sum_list (map sum_list occupations) / real num_kpoints))\<rparr>"

text \<open>
  The arithmetic on integer occupations in Python 2: \<^verbatim>\<open>num+.5\<close> is exact and \<^verbatim>\<open>/\<close> is
  floor division.
\<close>

definition floor_arith :: arith where
  "floor_arith =
     \<lparr>add_half = (\<lambda>x. x + 1 / 2), sub_half = (\<lambda>x. x - 1 / 2),
      mean_occupation = (\<lambda>occupations num_kpoints.
         Finite (of_int \<lfloor>sum_list (map sum_list occupations) / real num_kpoints\<rfloor>))\<rparr>"

text \<open>
  Two k-points with three bands each and the integer occupations 2, 1, 0 and 1, 1, 0.
\<close>

definition bands_integer_occupations :: "farray bandsdata" where
  "bands_integer_occupations =
     \<lparr>kpoints = Some [[0, 0, 0], [1, 0, 0]],
      arrays = [''bands'' \<mapsto> Arr2 [[1, 3, 5], [2, 4, 6]],
                ''occupations'' \<mapsto> Arr2 [[2, 1, 0], [1, 1, 0]]],
      attrs = Map.empty\<rparr>"

text \<open>One k-point with the band energies 1.0 and NaN, as \<^verbatim>\<open>set_bands([[1.0, nan]])\<close> stores them.\<close>

definition bands_with_nan :: "pyfloat nparray bandsdata" where
  "bands_with_nan =
     \<lparr>kpoints = Some [[0, 0, 0]], arrays = [''bands'' \<mapsto> Arr2 [[Finite 1, NaN]]],
      attrs = Map.empty\<rparr>"

text \<open>One k-point with the two band energies 1 and -1, stored unsorted; no occupations.\<close>

definition bands_one_kpoint :: "farray bandsdata" where
  "bands_one_kpoint =
     \<lparr>kpoints = Some [[0, 0, 0]], arrays = [''bands'' \<mapsto> Arr2 [[1, -1]]], attrs = Map.empty\<rparr>"

text \<open>No bands were ever stored.\<close>

definition no_bands :: "farray bandsdata" where
  "no_bands = \<lparr>kpoints = Some [[0, 0, 0]], arrays = Map.empty, attrs = Map.empty\<rparr>"

text \<open>
  Two k-points with three bands each and the occupations 2, 1, 0 at both: three electrons.
\<close>

definition bands_odd_occupations :: "farray bandsdata" where
  "bands_odd_occupations =
     \<lparr>kpoints = Some [[0, 0, 0], [1, 0, 0]],
      arrays = [''bands'' \<mapsto> Arr2 [[1, 3, 5], [2, 4, 6]],
                ''occupations'' \<mapsto> Arr2 [[2, 1, 0], [2, 1, 0]]],
      attrs = Map.empty\<rparr>"

text \<open>
  Arrays as \<open>set_bands\<close> receives them: two k-points by two bands of floats, occupations of
  the same shape, and an object array holding a number, \<^verbatim>\<open>None\<close> and a string.
\<close>

definition bands_2x2 :: ndarray where
  "bands_2x2 = \<lparr>shape = [2, 2], dtype = Float64,
                 flat = [Number 1, Number 3, Number 2, Number 4]\<rparr>"

definition occupations_2x2 :: ndarray where
  "occupations_2x2 = \<lparr>shape = [2, 2], dtype = Float64,
                       flat = [Number 2, Number 0, Number 2, Number 0]\<rparr>"

definition bands_with_string :: ndarray where
  "bands_with_string = \<lparr>shape = [2, 2], dtype = OtherDtype,
                         flat = [Number 1, NoneObj, NotANumber, Number 4]\<rparr>"

definition node_two_kpoints :: "ndarray bandsdata" where
  "node_two_kpoints =
     \<lparr>kpoints = Some [[0, 0, 0], [1, 0, 0]], arrays = Map.empty, attrs = Map.empty\<rparr>"

definition node_with_bands :: "ndarray bandsdata" where
  "node_with_bands =
     \<lparr>kpoints = Some [[0, 0, 0], [1, 0, 0]], arrays = [''bands'' \<mapsto> occupations_2x2],
      attrs = [''units'' \<mapsto> AttrStr ''eV'']\<rparr>"

text \<open>A database with rows in every table that the teardown empties.\<close>

definition db_example :: db where
  "db_example = \<lparr>workflows = [1], groups = [1, 2], links = [(1, 2)], nodes = [1, 2],
                  users = [''aiida@localhost''], computers = [''localhost'']\<rparr>"

text \<open>Two spins, two k-points, three bands per spin and k-point; no occupations.\<close>

definition bands_two_spins :: "farray bandsdata" where
  "bands_two_spins =
     \<lparr>kpoints = Some [[0, 0, 0], [1, 0, 0]],
      arrays = [''bands'' \<mapsto> Arr3 [[[1, 3, 5], [2, 4, 6]], [[1, 3, 5], [2, 4, 7]]]],
      attrs = Map.empty\<rparr>"


section \<open>Auxiliary notions for the proofs\<close>

text \<open>A call raises nothing but the exceptions of a given set.\<close>

definition raises_only :: "error set \<Rightarrow> error + 'a \<Rightarrow> bool" where
  "raises_only S m = (case m of Inl e \<Rightarrow> e \<in> S | Inr x \<Rightarrow> True)"

definition bandgap_errors :: "error set" where
  "bandgap_errors = {ValueError, AttributeError, IndexError, OverflowError, PyException}"

text \<open>
  The band energies of \<open>b\<close> are those of \<open>a\<close>, permuted independently within each k-point
  (and, with spins, within each spin and k-point).
\<close>

fun permuted_within_kpoints :: "farray \<Rightarrow> farray \<Rightarrow> bool" where
  "permuted_within_kpoints (Arr2 a) (Arr2 b) = list_all2 (\<lambda>r r'. mset r = mset r') a b"
| "permuted_within_kpoints (Arr3 a) (Arr3 b) =
     list_all2 (list_all2 (\<lambda>r r'. mset r = mset r')) a b"
| "permuted_within_kpoints _ _ = False"

text \<open>
  The spin arrays of a three-dimensional array all have the same number of k-points, as
  the slices of a numpy array do.
\<close>

fun spins_aligned :: "farray \<Rightarrow> bool" where
  "spins_aligned (Arr2 a) = True"
| "spins_aligned (Arr3 spins) = list_all (\<lambda>s. length s = length (hd spins)) spins"

text \<open>
  The band levels of the rows of a bands array: level \<open>j\<close> collects, over all k-points, the
  \<open>j\<close>-th lowest energy of the k-point.
\<close>

definition band_levels :: "real list list \<Rightarrow> real list list" where
  "band_levels rows = transpose_np (map sort rows)"

text \<open>
  A BandsData whose arrays hold finite numbers, seen as one whose arrays hold floats, and
  a result on finite numbers seen as a result on floats.
\<close>

definition as_floats :: "farray bandsdata \<Rightarrow> pyfloat nparray bandsdata" where
  "as_floats bd =
     \<lparr>kpoints = kpoints bd, arrays = (\<lambda>name. map_option (map_nparray Finite) (arrays bd name)),
      attrs = attrs bd\<rparr>"

definition result_as_floats :: "gap_result \<Rightarrow> bool \<times> pyfloat option" where
  "result_as_floats r = (fst r, map_option Finite (snd r))"

section \<open>Facts about the helpers\<close>

lemma ebind_Inr_iff: "(ebind m f = Inr r) = (\<exists>x. m = Inr x \<and> f x = Inr r)"
  by (cases m) (simp_all add: ebind_def)

lemma ebind_Inr [simp]: "ebind (Inr x) f = f x"
  by (simp add: ebind_def)

lemma ebind_Inl [simp]: "ebind (Inl e) f = Inl e"
  by (simp add: ebind_def)

lemma reraise_Inr [simp]: "reraise c r (Inr x) = Inr x"
  by (simp add: reraise_def)

lemma reraise_Inl [simp]: "reraise c r (Inl e) = Inl (if e = c then r else e)"
  by (simp add: reraise_def)

lemmas find_bandgap_eval =
  find_bandgap_def truthy_def get_bands_def get_array_def join_spins_def
  bandgap_from_electrons_def bandgap_from_fermi_def bandgap_from_occupations_def
  classify_homo_lumo_def np_index_def py_int_def py_round_def py_max_def py_min_def
  transpose_np_def sort_bands_occupations_def deduce_number_electrons_def homo_index_def
  nint_def concatenate_axis1_def int_of_round_def exact_arith_def

section \<open>The shape of the result of \<open>find_bandgap\<close>\<close>

text \<open>
  Every normal return of the tail on HOMO and LUMO is a metal without gap, a semi-metal
  with gap zero, or an insulator with a positive gap.
\<close>

lemma classify_homo_lumo_shape:
  assumes "classify_homo_lumo sb n homo lumo = Inr (ins, gap)"
  shows "(ins \<and> (\<exists>g. gap = Some g \<and> 0 < g)) \<or> (\<not> ins \<and> (gap = None \<or> gap = Some 0))"
  using assms
  by (auto simp: classify_homo_lumo_def ebind_Inr_iff Let_def split: if_splits)

lemma bandgap_from_electrons_shape:
  assumes "bandgap_from_electrons sb bands n = Inr (ins, gap)"
  shows "(ins \<and> (\<exists>g. gap = Some g \<and> 0 < g)) \<or> (\<not> ins \<and> (gap = None \<or> gap = Some 0))"
proof -
  from assms obtain homo lumo k where "classify_homo_lumo sb k homo lumo = Inr (ins, gap)"
    by (auto simp: bandgap_from_electrons_def ebind_Inr_iff Let_def)
  then show ?thesis by (rule classify_homo_lumo_shape)
qed

lemma bandgap_from_occupations_shape:
  assumes "bandgap_from_occupations ar bd sb bands = Inr (ins, gap)"
  shows "(ins \<and> (\<exists>g. gap = Some g \<and> 0 < g)) \<or> (\<not> ins \<and> (gap = None \<or> gap = Some 0))"
proof -
  from assms have "(ins, gap) = (False, None)
      \<or> (\<exists>homo lumo k. classify_homo_lumo sb k homo lumo = Inr (ins, gap))"
    by (auto simp: bandgap_from_occupations_def ebind_Inr_iff Let_def split: if_splits)
  then show ?thesis using classify_homo_lumo_shape by blast
qed

lemma bandgap_from_fermi_shape:
  assumes "bandgap_from_fermi bands ef = Inr (ins, gap)"
  shows "(ins \<and> (\<exists>g. gap = Some g \<and> 0 < g)) \<or> (\<not> ins \<and> (gap = None \<or> gap = Some 0))"
  using assms
  by (auto simp: bandgap_from_fermi_def ebind_Inr_iff Let_def split: if_splits)

lemma find_bandgap_shape:
  assumes "find_bandgap ar bandsdata number_electrons fermi_energy = Inr (is_insulator, gap)"
  shows "(is_insulator \<and> (\<exists>g. gap = Some g \<and> 0 < g))
       \<or> (\<not> is_insulator \<and> (gap = None \<or> gap = Some 0))"
proof -
  from assms have nb: "\<not> (truthy fermi_energy \<and> truthy number_electrons)"
    by (auto simp: find_bandgap_def)
  with assms obtain sb bands where tail:
    "(case fermi_energy of
        None \<Rightarrow> (case number_electrons of
                   None \<Rightarrow> bandgap_from_occupations ar bandsdata sb bands
                 | Some n \<Rightarrow> bandgap_from_electrons sb bands n)
      | Some ef \<Rightarrow> bandgap_from_fermi bands ef) = Inr (is_insulator, gap)"
    by (auto simp: find_bandgap_def ebind_Inr_iff)
  show ?thesis
  proof (cases fermi_energy)
    case None
    show ?thesis
    proof (cases number_electrons)
      case None
      with tail \<open>fermi_energy = None\<close> show ?thesis
        by (simp add: bandgap_from_occupations_shape)
    next
      case (Some n)
      with tail \<open>fermi_energy = None\<close> show ?thesis
        by (simp add: bandgap_from_electrons_shape)
    qed
  next
    case (Some ef)
    with tail show ?thesis
      by (simp add: bandgap_from_fermi_shape)
  qed
qed

text \<open>
  C1 as stated fails. \<open>set_bands\<close> accepts the float array \<^verbatim>\<open>[[1.0, nan]]\<close>. On it, with two
  electrons, line 119 sorts NaN to the end, HOMO is 1.0 and LUMO is NaN, the gap of line
  140 is NaN, the comparisons of lines 141 and 143 are both false, and line 146 returns
  \<open>(True, nan)\<close>: an insulator whose gap is not greater than zero.
\<close>

theorem find_bandgap_nan_counterexample:
  "arrays bands_with_nan ''bands'' = Some (Arr2 [[Finite 1, NaN]])
   \<and> find_bandgap_f bands_with_nan 2 = Inr (True, Some NaN)
   \<and> \<not> float_less (Finite 0) NaN"
  by (simp add: find_bandgap_f_def bands_with_nan_def get_bands_def get_array_def
      join_spins_def bandgap_from_electrons_f_def np_sort_f_def py_int_def np_index_def
      classify_homo_lumo_f_def py_min_f_def py_max_f_def)


text \<open>
  C1, amended. For every bandsdata whose stored band energies and occupations are all
  finite (neither NaN nor infinite, the arrays of the main model) and on which
  \<open>find_bandgap\<close> returns normally, the returned value is a pair \<open>(is_insulator, gap)\<close>
  where either \<open>is_insulator\<close> is true and the gap is a number strictly greater than zero,
  or \<open>is_insulator\<close> is false and the gap is \<^verbatim>\<open>None\<close> (a metal) or exactly zero (a
  semi-metal). No other combination is returned.
\<close>

theorem find_bandgap_result_shape:
  assumes "find_bandgap ar bandsdata number_electrons fermi_energy = Inr (is_insulator, gap)"
  shows "(is_insulator \<and> (\<exists>g. gap = Some g \<and> 0 < g))
       \<or> (\<not> is_insulator \<and> (gap = None \<or> gap = Some 0))"
  using assms by (rule find_bandgap_shape)

theorem find_bandgap_result_shape_witness:
  "find_bandgap exact_arith bands_one_kpoint (Some 2) None = Inr (True, Some 2)
   \<and> ((True \<and> (\<exists>g. Some (2::real) = Some g \<and> 0 < g))
      \<or> (\<not> True \<and> (Some (2::real) = None \<or> Some (2::real) = Some 0)))"
proof -
  have h: "find_bandgap exact_arith bands_one_kpoint (Some 2) None = Inr (True, Some 2)"
    by (simp add: find_bandgap_def bands_one_kpoint_def truthy_def get_bands_def get_array_def
        join_spins_def bandgap_from_electrons_def classify_homo_lumo_def np_index_def
        py_int_def py_max_def py_min_def)
  from find_bandgap_result_shape [OF h] h show ?thesis by simp
qed


section \<open>The exceptions of \<open>find_bandgap\<close>\<close>

lemma get_bands_not_KeyError: "get_bands self also_occupations also_labels \<noteq> Inl KeyError"
  by (simp add: get_bands_def get_array_def Let_def split: option.splits)

lemma get_bands_no_bands:
  "arrays self ''bands'' = None \<Longrightarrow> get_bands self a b = Inl AttributeError"
  by (simp add: get_bands_def get_array_def)

lemma raises_only_Inr: "raises_only S (Inr x)"
  by (simp add: raises_only_def)

lemma raises_only_Inl: "e \<in> S \<Longrightarrow> raises_only S (Inl e)"
  by (simp add: raises_only_def)

lemma raises_only_if:
  "(c \<Longrightarrow> raises_only S a) \<Longrightarrow> (\<not> c \<Longrightarrow> raises_only S b) \<Longrightarrow> raises_only S (if c then a else b)"
  by simp

lemma raises_only_ebind:
  "raises_only S m \<Longrightarrow> (\<And>x. raises_only S (f x)) \<Longrightarrow> raises_only S (ebind m f)"
  by (cases m) (simp_all add: raises_only_def)

lemma raises_only_emap: "(\<And>x. raises_only S (f x)) \<Longrightarrow> raises_only S (emap f xs)"
proof (induction xs)
  case Nil
  show ?case by (simp add: raises_only_def)
next
  case (Cons x xs)
  from Cons.prems have "raises_only S (f x)" .
  moreover from Cons have "raises_only S (emap f xs)" by simp
  ultimately show ?case
    by (auto simp: raises_only_def split: sum.splits)
qed

lemma raises_only_reraise_IndexError:
  "raises_only bandgap_errors m \<Longrightarrow> raises_only bandgap_errors (reraise IndexError ValueError m)"
  by (cases m) (auto simp: raises_only_def bandgap_errors_def)

lemma raises_only_get_bands: "raises_only bandgap_errors (get_bands self a b)"
  by (simp add: get_bands_def get_array_def Let_def raises_only_def bandgap_errors_def
      split: option.splits)

lemma raises_only_reraise_get_bands:
  "raises_only bandgap_errors (reraise KeyError KeyError (get_bands self a b))"
  using raises_only_get_bands [of self a b]
  by (cases "get_bands self a b") (auto simp: raises_only_def bandgap_errors_def)

lemma raises_only_py_max: "raises_only bandgap_errors (py_max xs)"
  by (simp add: py_max_def raises_only_def bandgap_errors_def split: list.splits)

lemma raises_only_py_min: "raises_only bandgap_errors (py_min xs)"
  by (simp add: py_min_def raises_only_def bandgap_errors_def split: list.splits)

lemma raises_only_np_index: "raises_only bandgap_errors (np_index xs i)"
  by (simp add: np_index_def raises_only_def bandgap_errors_def)

lemma raises_only_homo_index: "raises_only bandgap_errors (homo_index ar x)"
  by (simp add: homo_index_def Let_def raises_only_def bandgap_errors_def)

lemma raises_only_deduce_number_electrons:
  "raises_only bandgap_errors (deduce_number_electrons ar oc n)"
  by (simp add: deduce_number_electrons_def int_of_round_def raises_only_def bandgap_errors_def
      split: pyfloat.splits)

lemma raises_only_join_spins: "raises_only bandgap_errors (join_spins a)"
  by (simp add: join_spins_def concatenate_axis1_def raises_only_def bandgap_errors_def
      split: nparray.splits list.splits)

lemma raises_only_sort_bands_occupations:
  "raises_only bandgap_errors (sort_bands_occupations b oc)"
  by (simp add: sort_bands_occupations_def Let_def raises_only_def bandgap_errors_def)

lemma raises_only_unpack_occupations:
  "raises_only bandgap_errors
     (case ret of BandsList [_, ItemArray so] \<Rightarrow> Inr so | _ \<Rightarrow> Inl ValueError)"
  by (simp add: raises_only_def bandgap_errors_def
      split: bands_ret.splits list.splits ret_item.splits)

lemma raises_only_unpack_bands:
  "raises_only bandgap_errors (case ret of Bands sb \<Rightarrow> Inr sb | BandsList _ \<Rightarrow> Inl ValueError)"
  by (simp add: raises_only_def bandgap_errors_def split: bands_ret.splits)

lemmas raises_only_intros =
  raises_only_Inr raises_only_Inl raises_only_if raises_only_ebind raises_only_emap
  raises_only_reraise_IndexError raises_only_reraise_get_bands raises_only_py_max
  raises_only_py_min raises_only_np_index raises_only_homo_index raises_only_join_spins
  raises_only_sort_bands_occupations raises_only_unpack_occupations raises_only_unpack_bands
  raises_only_deduce_number_electrons

lemma raises_only_classify_homo_lumo:
  "raises_only bandgap_errors (classify_homo_lumo sb n homo lumo)"
  unfolding classify_homo_lumo_def Let_def
  by (intro raises_only_intros)

lemma raises_only_bandgap_from_electrons:
  "raises_only bandgap_errors (bandgap_from_electrons sb bands n)"
  unfolding bandgap_from_electrons_def Let_def
  by (intro raises_only_intros raises_only_classify_homo_lumo)

lemma raises_only_bandgap_from_occupations:
  "raises_only bandgap_errors (bandgap_from_occupations ar bd sb bands)"
  unfolding bandgap_from_occupations_def Let_def
  by (intro raises_only_intros raises_only_classify_homo_lumo)

lemma raises_only_bandgap_from_fermi:
  "raises_only bandgap_errors (bandgap_from_fermi bands ef)"
  unfolding bandgap_from_fermi_def Let_def
  by (intro raises_only_intros) (simp_all add: bandgap_errors_def)

lemma raises_only_find_bandgap: "raises_only bandgap_errors (find_bandgap ar bd ne fe)"
proof -
  have tail: "raises_only bandgap_errors (case fe of
        None \<Rightarrow> (case ne of
                   None \<Rightarrow> bandgap_from_occupations ar bd sb bands
                 | Some n \<Rightarrow> bandgap_from_electrons sb bands n)
      | Some ef \<Rightarrow> bandgap_from_fermi bands ef)" for sb bands
    by (simp add: raises_only_bandgap_from_fermi raises_only_bandgap_from_occupations
        raises_only_bandgap_from_electrons split: option.splits)
  show ?thesis
    unfolding find_bandgap_def
    by (intro raises_only_intros tail) (simp add: bandgap_errors_def)
qed

text \<open>
  C3. The guard against giving both the number of electrons and the Fermi energy tests the
  truth values of the two arguments, so a Fermi energy of zero passes it: on one k-point
  with the energies -1 and 1, the call with two electrons and the Fermi energy 0.0 does not
  raise ValueError but returns an insulator with gap 2.
\<close>

theorem find_bandgap_zero_fermi_and_electrons:
  "find_bandgap ar bands_one_kpoint (Some 2) (Some 0) = Inr (True, Some 2)"
  by (simp add: find_bandgap_def truthy_def get_bands_def get_array_def join_spins_def
      bandgap_from_fermi_def transpose_np_def py_max_def py_min_def bands_one_kpoint_def)

text \<open>When both arguments are true as conditions, the guard raises before any read.\<close>

lemma both_truthy_raises:
  "truthy fermi_energy \<Longrightarrow> truthy number_electrons \<Longrightarrow>
     find_bandgap ar bandsdata number_electrons fermi_energy = Inl ValueError"
  by (simp add: find_bandgap_def)

section \<open>\<open>find_bandgap\<close> without stored bands\<close>

text \<open>
  C9 as stated fails: without stored bands, a call that gives both a number of electrons
  and a Fermi energy raises ValueError, not AttributeError.
\<close>

theorem find_bandgap_no_bands_counterexample:
  "arrays no_bands ''bands'' = None
   \<and> find_bandgap exact_arith no_bands (Some 2) (Some 1) = Inl ValueError
   \<and> find_bandgap exact_arith no_bands (Some 2) (Some 1) \<noteq> Inl AttributeError"
  by (simp add: find_bandgap_def truthy_def no_bands_def)

text \<open>
  C9, amended. For every BandsData with no stored \<open>bands\<close> array, a call to \<open>find_bandgap\<close>
  that passes at most one of the number of electrons and the Fermi energy raises
  AttributeError, the exception of \<open>get_bands\<close>. On no BandsData does \<open>get_bands\<close> raise
  KeyError, with or without occupations, so the two handlers of KeyError in \<open>find_bandgap\<close>
  are unreachable, and \<open>find_bandgap\<close> never raises KeyError.
\<close>

theorem find_bandgap_no_bands:
  assumes "arrays bandsdata ''bands'' = None"
    and "number_electrons = None \<or> fermi_energy = None"
  shows "find_bandgap ar bandsdata number_electrons fermi_energy = Inl AttributeError
       \<and> (\<forall>bd :: farray bandsdata. get_bands bd False False \<noteq> Inl KeyError
             \<and> get_bands bd True False \<noteq> Inl KeyError)
       \<and> (\<forall>ar bd ne fe. find_bandgap ar bd ne fe \<noteq> Inl KeyError)"
proof -
  from assms(2) have "\<not> (truthy fermi_energy \<and> truthy number_electrons)"
    by (auto simp: truthy_def)
  with assms(1) have "find_bandgap ar bandsdata number_electrons fermi_energy = Inl AttributeError"
    by (simp add: find_bandgap_def get_bands_no_bands)
  moreover have "find_bandgap ar bd ne fe \<noteq> Inl KeyError" for ar bd ne fe
    using raises_only_find_bandgap [of ar bd ne fe]
    by (auto simp: raises_only_def bandgap_errors_def)
  ultimately show ?thesis
    by (simp add: get_bands_not_KeyError)
qed

theorem find_bandgap_no_bands_witness:
  "arrays no_bands ''bands'' = None
   \<and> find_bandgap exact_arith no_bands None None = Inl AttributeError
   \<and> find_bandgap exact_arith no_bands (Some 2) None = Inl AttributeError
   \<and> find_bandgap exact_arith no_bands None (Some 1) = Inl AttributeError"
proof -
  have h: "arrays no_bands ''bands'' = None" by (simp add: no_bands_def)
  have n: "(None :: real option) = None \<or> (None :: real option) = None" by simp
  have e: "Some (2 :: real) = None \<or> (None :: real option) = None" by simp
  have f: "(None :: real option) = None \<or> Some (1 :: real) = None" by simp
  from find_bandgap_no_bands [OF h n] find_bandgap_no_bands [OF h e]
       find_bandgap_no_bands [OF h f] h
  show ?thesis by simp
qed

section \<open>An odd number of electrons\<close>

lemma classify_odd:
  "n mod 2 = 1 \<Longrightarrow> classify_homo_lumo (Arr2 b) n homo lumo = Inr (False, None)"
  by (simp add: classify_homo_lumo_def)

lemma get_bands_only_bands:
  "arrays self ''bands'' = Some a \<Longrightarrow> get_bands self False False = Inr (Bands a)"
  by (simp add: get_bands_def get_array_def)

lemma get_bands_with_occupations:
  "arrays self ''bands'' = Some a \<Longrightarrow> arrays self ''occupations'' = Some oc \<Longrightarrow>
     get_bands self True False = Inr (BandsList [ItemArray a, ItemArray oc])"
  by (simp add: get_bands_def get_array_def)

text \<open>
  C4. In a call without Fermi energy on a two-dimensional bands array, when the number of
  electrons is odd, whether it was passed or deduced from the occupations, and the call
  returns normally (the extraction of HOMO and LUMO did not raise), the result is
  \<open>(False, None)\<close>: a metal. The deduced number is the one that line 105 computes, in
  whatever arithmetic the interpreter applies to the occupations.
\<close>

theorem odd_electrons_is_metal:
  assumes bands: "arrays bandsdata ''bands'' = Some (Arr2 b)"
    and ret: "find_bandgap ar bandsdata number_electrons None = Inr r"
    and odd: "(number_electrons = Some n \<and> odd (py_int n))
            \<or> (number_electrons = None
                \<and> arrays bandsdata ''occupations'' = Some stored_occupations
                \<and> join_spins stored_occupations = Inr occupations
                \<and> sort_bands_occupations b occupations = Inr (sorted_bands, sorted_occupations)
                \<and> deduce_number_electrons ar sorted_occupations (length b) = Inr k
                \<and> odd k)"
  shows "r = (False, None)"
proof -
  from odd show ?thesis
  proof (elim disjE conjE)
    assume ne: "number_electrons = Some n" and o: "odd (py_int n)"
    from o have "py_int n mod 2 = 1" by presburger
    with ret bands ne show ?thesis
      by (auto simp: find_bandgap_def truthy_def get_bands_only_bands join_spins_def
          bandgap_from_electrons_def Let_def ebind_Inr_iff classify_odd)
  next
    assume ne: "number_electrons = None"
      and oc: "arrays bandsdata ''occupations'' = Some stored_occupations"
      and js: "join_spins stored_occupations = Inr occupations"
      and so: "sort_bands_occupations b occupations = Inr (sorted_bands, sorted_occupations)"
      and de: "deduce_number_electrons ar sorted_occupations (length b) = Inr k"
      and o: "odd k"
    from o have "k mod 2 = 1" by presburger
    with ret bands ne oc js so de show ?thesis
      by (auto simp: find_bandgap_def truthy_def get_bands_only_bands get_bands_with_occupations
          join_spins_def bandgap_from_occupations_def Let_def ebind_Inr_iff classify_odd
          split: if_splits)
  qed
qed

theorem odd_electrons_is_metal_witness:
  "arrays bands_one_kpoint ''bands'' = Some (Arr2 [[1, -1]]) \<and> odd (py_int 1)
   \<and> find_bandgap exact_arith bands_one_kpoint (Some 1) None = Inr (False, None)
   \<and> deduce_number_electrons exact_arith [[2, 1, 0], [2, 1, 0]] 2 = Inr 3 \<and> odd (3 :: int)
   \<and> find_bandgap exact_arith bands_odd_occupations None None = Inr (False, None)"
proof -
  have b1: "arrays bands_one_kpoint ''bands'' = Some (Arr2 [[1, -1]])"
    by (simp add: bands_one_kpoint_def)
  have r1: "find_bandgap exact_arith bands_one_kpoint (Some 1) None = Inr (False, None)"
    by (simp add: find_bandgap_eval bands_one_kpoint_def)
  have o1: "odd (py_int 1)" by (simp add: py_int_def)
  have b2: "arrays bands_odd_occupations ''bands'' = Some (Arr2 [[1, 3, 5], [2, 4, 6]])"
    by (simp add: bands_odd_occupations_def)
  have oc2: "arrays bands_odd_occupations ''occupations'' = Some (Arr2 [[2, 1, 0], [2, 1, 0]])"
    by (simp add: bands_odd_occupations_def)
  have j2: "join_spins (Arr2 [[2, 1, 0], [2, 1, 0]]) = Inr [[2, 1, 0], [2, 1, 0 :: real]]"
    by (simp add: join_spins_def)
  have s2: "sort_bands_occupations [[1, 3, 5], [2, 4, 6]] [[2, 1, 0], [2, 1, 0]]
              = Inr ([[1, 3, 5], [2, 4, 6]], [[2, 1, 0], [2, 1, 0]])"
    by (simp add: sort_bands_occupations_def)
  have o2: "deduce_number_electrons exact_arith [[2, 1, 0], [2, 1, 0]] 2 = Inr 3"
    by (simp add: deduce_number_electrons_def int_of_round_def exact_arith_def py_int_def
        py_round_def)
  have r2: "find_bandgap exact_arith bands_odd_occupations None None = Inr (False, None)"
    by (simp add: find_bandgap_eval bands_odd_occupations_def)
  have d1: "((Some 1 :: real option) = Some 1 \<and> odd (py_int 1))
            \<or> ((Some 1 :: real option) = None
                \<and> arrays bands_one_kpoint ''occupations'' = Some (Arr2 [])
                \<and> join_spins (Arr2 [] :: farray) = Inr []
                \<and> sort_bands_occupations [[1, -1]] [] = Inr ([], [])
                \<and> deduce_number_electrons exact_arith [] (length [[1, -1 :: real]]) = Inr 1
                \<and> odd (1 :: int))"
    using o1 by simp
  have d2: "((None :: real option) = Some 0 \<and> odd (py_int 0))
            \<or> ((None :: real option) = None
                \<and> arrays bands_odd_occupations ''occupations'' = Some (Arr2 [[2, 1, 0], [2, 1, 0]])
                \<and> join_spins (Arr2 [[2, 1, 0], [2, 1, 0 :: real]]) = Inr [[2, 1, 0], [2, 1, 0]]
                \<and> sort_bands_occupations [[1, 3, 5], [2, 4, 6]] [[2, 1, 0], [2, 1, 0]]
                    = Inr ([[1, 3, 5], [2, 4, 6]], [[2, 1, 0], [2, 1, 0]])
                \<and> deduce_number_electrons exact_arith [[2, 1, 0], [2, 1, 0]]
                          (length [[1, 3, 5], [2, 4, 6 :: real]]) = Inr 3
                \<and> odd (3 :: int))"
    using oc2 j2 s2
    by (simp add: deduce_number_electrons_def int_of_round_def exact_arith_def py_int_def
        py_round_def)
  note c1 = odd_electrons_is_metal [OF b1 r1 d1]
  note c2 = odd_electrons_is_metal [OF b2 r2 d2]
  from c1 c2 b1 o1 r1 o2 r2 show ?thesis by simp
qed

text \<open>
  With integer occupations of mean 5/2 the floor division of Python 2 deduces two
  electrons, an even number, and the call returns an insulator of gap 1.
\<close>

lemma floor_division_deduces_two:
  "deduce_number_electrons floor_arith [[2, 1, 0], [1, 1, 0]] 2 = Inr 2
   \<and> find_bandgap floor_arith bands_integer_occupations None None = Inr (True, Some 1)"
  by (simp add: find_bandgap_eval bands_integer_occupations_def floor_arith_def)

section \<open>\<open>set_bands\<close>: validation comes first\<close>

lemma validate_labels_Inl: "validate_labels b l = Inl e \<Longrightarrow> e = ValidationError"
  by (auto simp: validate_labels_def ebind_def
      split: option.splits labels_arg.splits if_splits sum.splits)

lemma validate_bands_occupations_Inl:
  assumes "validate_bands_occupations self b oc l = Inl e"
  shows "e \<in> {AttributeError, ValueError, ValidationError}"
proof -
  have "raises_only {AttributeError, ValueError, ValidationError}
          (validate_bands_occupations self b oc l)"
    unfolding validate_bands_occupations_def Let_def
  proof (intro raises_only_ebind raises_only_if raises_only_Inl raises_only_Inr)
    show "raises_only {AttributeError, ValueError, ValidationError}
            (reraise AttributeError AttributeError (get_kpoints self))"
      by (simp add: get_kpoints_def raises_only_def split: option.splits)
    show "raises_only {AttributeError, ValueError, ValidationError}
     (case oc of None \<Rightarrow> Inr []
      | Some the_occupations \<Rightarrow>
          if shape the_occupations \<noteq> shape b then Inl ValueError
          else Inr (if dtype b \<noteq> Float64 then [the_occupations] else []))"
      by (simp add: raises_only_def split: option.splits)
    show "raises_only {AttributeError, ValueError, ValidationError} (validate_labels b l)"
      using validate_labels_Inl [of b l] by (cases "validate_labels b l") (auto simp: raises_only_def)
  qed simp_all
  with assms show ?thesis by (simp add: raises_only_def)
qed

text \<open>
  C10. \<open>set_bands\<close> is atomic with respect to validation failures: whenever the call
  raises, the exception is the one of \<open>_validate_bands_occupations\<close>, it is an
  AttributeError (k-points not set), a ValueError (dimension, k-point count, shape of the
  occupations, entries that are neither floats nor \<^verbatim>\<open>None\<close>) or a ValidationError (labels),
  and the object is unchanged: its arrays and its attributes are what they were.
\<close>

theorem set_bands_atomic:
  assumes "fst (set_bands self bands units occupations labels) = Some e"
  shows "snd (set_bands self bands units occupations labels) = self
       \<and> arrays (snd (set_bands self bands units occupations labels)) = arrays self
       \<and> attrs (snd (set_bands self bands units occupations labels)) = attrs self
       \<and> validate_bands_occupations self bands occupations labels = Inl e
       \<and> e \<in> {AttributeError, ValueError, ValidationError}"
proof (cases "validate_bands_occupations self bands occupations labels")
  case (Inl e')
  with assms have "e' = e" by (simp add: set_bands_def)
  with Inl validate_bands_occupations_Inl [of self bands occupations labels e] show ?thesis
    by (simp add: set_bands_def)
next
  case (Inr v)
  with assms show ?thesis by (simp add: set_bands_def Let_def)
qed

theorem set_bands_atomic_witness:
  "fst (set_bands node_with_bands bands_with_string (Some ''Ry'') None None) = Some ValueError
   \<and> snd (set_bands node_with_bands bands_with_string (Some ''Ry'') None None) = node_with_bands
   \<and> arrays (snd (set_bands node_with_bands bands_with_string (Some ''Ry'') None None)) ''bands''
       = Some occupations_2x2
   \<and> attrs (snd (set_bands node_with_bands bands_with_string (Some ''Ry'') None None)) ''units''
       = Some (AttrStr ''eV'')"
proof -
  have h: "fst (set_bands node_with_bands bands_with_string (Some ''Ry'') None None)
             = Some ValueError"
    by (simp add: set_bands_def validate_bands_occupations_def get_kpoints_def
        node_with_bands_def bands_with_string_def)
  from set_bands_atomic [OF h] h show ?thesis
    by (simp add: node_with_bands_def)
qed

text \<open>The listed causes do make the call raise.\<close>

lemma set_bands_kpoints_not_set:
  "kpoints self = None \<Longrightarrow> fst (set_bands self b u oc l) = Some AttributeError"
  by (simp add: set_bands_def validate_bands_occupations_def get_kpoints_def)

lemma set_bands_bad_dimension:
  "kpoints self = Some k \<Longrightarrow> length (shape b) \<notin> {2, 3} \<Longrightarrow>
     fst (set_bands self b u oc l) = Some ValueError"
  by (simp add: set_bands_def validate_bands_occupations_def get_kpoints_def)

lemma set_bands_kpoint_mismatch:
  "kpoints self = Some k \<Longrightarrow>
   (length (shape b) = 2 \<and> shape b ! 0 \<noteq> length k) \<or> (length (shape b) = 3 \<and> shape b ! 1 \<noteq> length k) \<Longrightarrow>
     fst (set_bands self b u oc l) = Some ValueError"
  by (auto simp: set_bands_def validate_bands_occupations_def get_kpoints_def)

lemma set_bands_occupations_shape:
  "kpoints self = Some k \<Longrightarrow> shape oc \<noteq> shape b \<Longrightarrow>
     fst (set_bands self b u (Some oc) l) = Some ValueError"
  by (auto simp: set_bands_def validate_bands_occupations_def get_kpoints_def Let_def)

lemma set_bands_not_a_number:
  "kpoints self = Some k \<Longrightarrow> dtype b \<noteq> Float64 \<Longrightarrow> NotANumber \<in> set (flat b) \<Longrightarrow>
     fst (set_bands self b u oc l) = Some ValueError"
  by (auto simp: set_bands_def validate_bands_occupations_def get_kpoints_def Let_def
      list_ex_iff ebind_def split: option.splits sum.splits)

section \<open>Round trip of the bands through \<open>set_bands\<close> and \<open>get_bands\<close>\<close>

text \<open>
  C6. On a BandsData whose k-points are set, for a float array \<open>bands\<close> of dimension two or
  three whose k-point count is the number of stored k-points, \<open>set_bands(bands)\<close> does not
  raise and \<open>get_bands()\<close> afterwards returns that array; when occupations of the same
  shape were given as well, \<open>get_bands(also_occupations=True)\<close> returns the list of the
  bands and those occupations.
\<close>

theorem set_bands_get_bands_roundtrip:
  assumes kp: "kpoints self = Some kpts"
    and dim: "(length (shape bands) = 2 \<and> shape bands ! 0 = length kpts)
            \<or> (length (shape bands) = 3 \<and> shape bands ! 1 = length kpts)"
    and fl: "dtype bands = Float64"
    and oc: "occupations = None \<or> (\<exists>oc. occupations = Some oc \<and> shape oc = shape bands)"
  shows "fst (set_bands self bands units occupations None) = None
       \<and> get_bands (snd (set_bands self bands units occupations None)) False False
           = Inr (Bands bands)
       \<and> (\<forall>oc. occupations = Some oc \<longrightarrow>
            get_bands (snd (set_bands self bands units occupations None)) True False
              = Inr (BandsList [ItemArray bands, ItemArray oc]))"
proof -
  from dim have d: "length (shape bands) \<in> {2, 3}" by auto
  from dim have n: "(if length (shape bands) = 2 then shape bands ! 0 else shape bands ! 1) = length kpts"
    by auto
  have v: "validate_bands_occupations self bands occupations None = Inr (bands, occupations, None)"
    using kp d n fl oc
    by (auto simp: validate_bands_occupations_def get_kpoints_def validate_labels_def)
  have r: "set_bands self bands units occupations None =
      (None, case occupations of
               None \<Rightarrow> set_units (set_array self ''bands'' bands) units
             | Some oc \<Rightarrow>
                 set_array (set_units (set_array self ''bands'' bands) units) ''occupations'' oc)"
    by (simp add: set_bands_def v Let_def split: option.splits)
  show ?thesis
    unfolding r
    by (auto simp: get_bands_def get_array_def set_array_def set_units_def set_attr_def
        split: option.splits)
qed

theorem set_bands_get_bands_roundtrip_witness:
  "fst (set_bands node_two_kpoints bands_2x2 None (Some occupations_2x2) None) = None
   \<and> get_bands (snd (set_bands node_two_kpoints bands_2x2 None (Some occupations_2x2) None))
        False False = Inr (Bands bands_2x2)
   \<and> get_bands (snd (set_bands node_two_kpoints bands_2x2 None (Some occupations_2x2) None))
        True False = Inr (BandsList [ItemArray bands_2x2, ItemArray occupations_2x2])"
proof -
  have kp: "kpoints node_two_kpoints = Some [[0, 0, 0], [1, 0, 0]]"
    by (simp add: node_two_kpoints_def)
  have dim: "(length (shape bands_2x2) = 2 \<and> shape bands_2x2 ! 0 = length [[0, 0, 0], [1, 0, 0 :: real]])
            \<or> (length (shape bands_2x2) = 3 \<and> shape bands_2x2 ! 1 = length [[0, 0, 0], [1, 0, 0 :: real]])"
    by (simp add: bands_2x2_def)
  have fl: "dtype bands_2x2 = Float64" by (simp add: bands_2x2_def)
  have oc: "Some occupations_2x2 = None
            \<or> (\<exists>oc. Some occupations_2x2 = Some oc \<and> shape oc = shape bands_2x2)"
    by (simp add: bands_2x2_def occupations_2x2_def)
  from set_bands_get_bands_roundtrip [OF kp dim fl oc, of None] show ?thesis by simp
qed

section \<open>The export formats\<close>

lemma sort_prepare_names: "sort [''_prepare_agr_batch'', ''_prepare_dat_1'', ''_prepare_dat_2'', ''_prepare_agr'', ''_prepare_json'']
   = [''_prepare_agr'', ''_prepare_agr_batch'', ''_prepare_dat_1'', ''_prepare_dat_2'', ''_prepare_json'']"
  by code_simp

lemma filter_prepare_class_names: "filter (\<lambda>i. startswith i ''_prepare_'') bandsdata_class_names =
   [''_prepare_agr_batch'', ''_prepare_dat_1'', ''_prepare_dat_2'', ''_prepare_agr'', ''_prepare_json'']"
  by (simp add: startswith_def bandsdata_class_names_def)

text \<open>The index 1 into the pieces exists for every name that passes the filter.\<close>

lemma split_str_startswith:
  assumes "sep \<noteq> []" "startswith s sep"
  shows "2 \<le> length (split_str sep [] s)"
proof (cases s)
  case Nil
  with assms show ?thesis by (simp add: startswith_def)
next
  case (Cons c cs)
  with assms have "split_str sep [] s = [] # split_str sep [] (drop (length sep) s)"
    by simp
  moreover have "split_str sep acc t \<noteq> []" for acc t
    by (induction sep acc t rule: split_str.induct) auto
  ultimately show ?thesis
    by (cases "split_str sep [] (drop (length sep) s)") auto
qed

text \<open>
  C7. \<open>get_export_formats\<close> returns exactly the names \<open>agr\<close>, \<open>agr_batch\<close>, \<open>dat_1\<close>,
  \<open>dat_2\<close> and \<open>json\<close>, the names of the \<open>_prepare_*\<close> methods of the class, provided no
  name that comes from a superclass or from the instance starts with \<open>_prepare_\<close>.
\<close>

theorem get_export_formats_names:
  assumes "list_all (\<lambda>n. \<not> startswith n ''_prepare_'') inherited"
  shows "get_export_formats inherited = [''agr'', ''agr_batch'', ''dat_1'', ''dat_2'', ''json'']"
proof -
  let ?P = "\<lambda>i. startswith i ''_prepare_''"
  from assms have inh: "filter ?P inherited = []"
    by (simp add: list_all_iff filter_empty_conv)
  have "filter ?P (dir_names inherited) = sort (remdups (filter ?P bandsdata_class_names))"
    by (simp add: dir_names_def filter_sort remdups_filter[symmetric] inh)
  also have "\<dots> = sort [''_prepare_agr_batch'', ''_prepare_dat_1'', ''_prepare_dat_2'',
                          ''_prepare_agr'', ''_prepare_json'']"
    by (simp add: filter_prepare_class_names)
  also have "\<dots> = [''_prepare_agr'', ''_prepare_agr_batch'', ''_prepare_dat_1'',
                     ''_prepare_dat_2'', ''_prepare_json'']"
    by (rule sort_prepare_names)
  finally show ?thesis
    by (simp add: get_export_formats_def startswith_def)
qed

theorem get_export_formats_names_witness:
  "list_all (\<lambda>n. \<not> startswith n ''_prepare_'') [''get_kpoints'', ''_set_attr'', ''prepare_x'']
   \<and> get_export_formats [''get_kpoints'', ''_set_attr'', ''prepare_x'']
       = [''agr'', ''agr_batch'', ''dat_1'', ''dat_2'', ''json'']"
proof -
  have h: "list_all (\<lambda>n. \<not> startswith n ''_prepare_'') [''get_kpoints'', ''_set_attr'', ''prepare_x'']"
    by (simp add: startswith_def)
  from get_export_formats_names [OF h] h show ?thesis by simp
qed

section \<open>The order of the teardown\<close>

lemma get_user_none:
  "filter (\<lambda>u. u = email) (users s) = [] \<Longrightarrow> get_user email s = Inl ObjectDoesNotExist"
  by (simp add: get_user_def)

lemma get_user_one:
  "filter (\<lambda>u. u = email) (users s) = [u] \<Longrightarrow> get_user email s = Inr email"
proof -
  assume f: "filter (\<lambda>u. u = email) (users s) = [u]"
  then have "u \<in> set (filter (\<lambda>u. u = email) (users s))" by simp
  then have "u = email" by simp
  with f show ?thesis by (simp add: get_user_def)
qed

text \<open>
  The statement that deletes the user: with at most one row of the configured email, the
  rows of that email are gone afterwards and nothing else has changed.
\<close>

lemma exec_DeleteUser:
  assumes "length (filter (\<lambda>u. u = email) (users s)) \<le> 1"
  shows "exec_statement email DeleteUser s
           = Inr (s\<lparr>users := filter (\<lambda>u. u \<noteq> email) (users s)\<rparr>)"
proof (cases "filter (\<lambda>u. u = email) (users s)")
  case Nil
  then have "filter (\<lambda>u. u \<noteq> email) (users s) = users s"
    by (simp add: filter_empty_conv filter_id_conv)
  with Nil show ?thesis
    by (simp add: get_user_none)
next
  case (Cons u us)
  with assms have "filter (\<lambda>u. u = email) (users s) = [u]" by simp
  then show ?thesis
    by (simp add: get_user_one)
qed

text \<open>
  C8. \<open>tearDownClass\<close> empties the workflows, then the groups, then the links, then the
  nodes, and only afterwards deletes the configured user and empties the computers: these
  are the seven states of the run, each the previous one with one table changed (the email
  is the name of a user, so at most one row has the configured email). Along the run no
  node row is deleted while a link row exists, and no user or computer row is deleted
  while a node row exists.
\<close>

theorem tearDownClass_order:
  "let t = tearDownClass email s in
     5 \<le> length t \<and> t ! 0 = s
     \<and> t ! 1 = (t ! 0)\<lparr>workflows := []\<rparr>
     \<and> t ! 2 = (t ! 1)\<lparr>groups := []\<rparr>
     \<and> t ! 3 = (t ! 2)\<lparr>links := []\<rparr>
     \<and> t ! 4 = (t ! 3)\<lparr>nodes := []\<rparr>
     \<and> (length (filter (\<lambda>u. u = email) (users s)) \<le> 1 \<longrightarrow>
           length t = 7
         \<and> t ! 5 = (t ! 4)\<lparr>users := filter (\<lambda>u. u \<noteq> email) (users (t ! 4))\<rparr>
         \<and> t ! 6 = (t ! 5)\<lparr>computers := []\<rparr>)
     \<and> (\<forall>i. Suc i < length t \<longrightarrow>
           (nodes (t ! Suc i) \<noteq> nodes (t ! i) \<longrightarrow> links (t ! i) = [])
         \<and> (users (t ! Suc i) \<noteq> users (t ! i) \<or> computers (t ! Suc i) \<noteq> computers (t ! i)
              \<longrightarrow> nodes (t ! i) = []))"
proof -
  define s1 where "s1 = s\<lparr>workflows := []\<rparr>"
  define s2 where "s2 = s1\<lparr>groups := []\<rparr>"
  define s3 where "s3 = s2\<lparr>links := []\<rparr>"
  define s4 where "s4 = s3\<lparr>nodes := []\<rparr>"
  have t: "tearDownClass email s =
      [s, s1, s2, s3, s4] @
        (case exec_statement email DeleteUser s4 of Inl e \<Rightarrow> []
         | Inr s5 \<Rightarrow> [s5, s5\<lparr>computers := []\<rparr>])"
    by (simp add: tearDownClass_def tearDownClass_body_def s1_def s2_def s3_def s4_def
        split: sum.splits)
  have n4: "nodes s4 = []" and u4: "users s4 = users s"
    by (simp_all add: s1_def s2_def s3_def s4_def)
  have x: "exec_statement email DeleteUser s4 = Inr s5 \<Longrightarrow> nodes s5 = []" for s5
    using n4 by (auto split: sum.splits if_splits)
  have del: "exec_statement email DeleteUser s4
               = Inr (s4\<lparr>users := filter (\<lambda>u. u \<noteq> email) (users s4)\<rparr>)"
    if "length (filter (\<lambda>u. u = email) (users s)) \<le> 1"
  proof (rule exec_DeleteUser)
    from that u4 show "length (filter (\<lambda>u. u = email) (users s4)) \<le> 1" by simp
  qed
  show ?thesis
  proof (cases "exec_statement email DeleteUser s4")
    case (Inl e)
    with del have many: "\<not> length (filter (\<lambda>u. u = email) (users s)) \<le> 1" by auto
    from Inl t have t': "tearDownClass email s = [s, s1, s2, s3, s4]" by simp
    show ?thesis
      unfolding Let_def t'
      using many by (auto simp: less_Suc_eq s1_def s2_def s3_def s4_def)
  next
    case (Inr s5)
    with t have t': "tearDownClass email s = [s, s1, s2, s3, s4, s5, s5\<lparr>computers := []\<rparr>]"
      by simp
    from x [OF Inr] have n5: "nodes s5 = []" .
    from del Inr have s5: "length (filter (\<lambda>u. u = email) (users s)) \<le> 1 \<Longrightarrow>
        s5 = s4\<lparr>users := filter (\<lambda>u. u \<noteq> email) (users s4)\<rparr>"
      by simp
    have safety: "\<forall>i. Suc i < length [s, s1, s2, s3, s4, s5, s5\<lparr>computers := []\<rparr>] \<longrightarrow>
           (nodes ([s, s1, s2, s3, s4, s5, s5\<lparr>computers := []\<rparr>] ! Suc i)
              \<noteq> nodes ([s, s1, s2, s3, s4, s5, s5\<lparr>computers := []\<rparr>] ! i)
            \<longrightarrow> links ([s, s1, s2, s3, s4, s5, s5\<lparr>computers := []\<rparr>] ! i) = [])
         \<and> (users ([s, s1, s2, s3, s4, s5, s5\<lparr>computers := []\<rparr>] ! Suc i)
              \<noteq> users ([s, s1, s2, s3, s4, s5, s5\<lparr>computers := []\<rparr>] ! i)
            \<or> computers ([s, s1, s2, s3, s4, s5, s5\<lparr>computers := []\<rparr>] ! Suc i)
              \<noteq> computers ([s, s1, s2, s3, s4, s5, s5\<lparr>computers := []\<rparr>] ! i)
              \<longrightarrow> nodes ([s, s1, s2, s3, s4, s5, s5\<lparr>computers := []\<rparr>] ! i) = [])"
      using n5 by (auto simp: less_Suc_eq s1_def s2_def s3_def s4_def)
    show ?thesis
      unfolding Let_def t'
      using s5 safety by (simp add: s1_def s2_def s3_def s4_def)
  qed
qed

theorem tearDownClass_order_witness:
  "length (filter (\<lambda>u. u = ''aiida@localhost'') (users db_example)) \<le> 1
   \<and> length (tearDownClass ''aiida@localhost'' db_example) = 7
   \<and> users (tearDownClass ''aiida@localhost'' db_example ! 4) = [''aiida@localhost'']
   \<and> users (tearDownClass ''aiida@localhost'' db_example ! 5) = []
   \<and> computers (tearDownClass ''aiida@localhost'' db_example ! 5) = [''localhost'']
   \<and> computers (tearDownClass ''aiida@localhost'' db_example ! 6) = []
   \<and> nodes (tearDownClass ''aiida@localhost'' db_example ! 4)
       \<noteq> nodes (tearDownClass ''aiida@localhost'' db_example ! 3)
   \<and> links (tearDownClass ''aiida@localhost'' db_example ! 3) = []
   \<and> nodes (tearDownClass ''aiida@localhost'' db_example ! 5) = []"
proof -
  let ?t = "tearDownClass ''aiida@localhost'' db_example"
  have one: "length (filter (\<lambda>u. u = ''aiida@localhost'') (users db_example)) \<le> 1"
    by (simp add: db_example_def)
  have t4: "?t ! 4 = \<lparr>workflows = [], groups = [], links = [], nodes = [],
                       users = [''aiida@localhost''], computers = [''localhost'']\<rparr>"
    by (simp add: tearDownClass_def tearDownClass_body_def db_example_def)
  have n: "nodes (?t ! 4) \<noteq> nodes (?t ! 3)"
    by (simp add: tearDownClass_def tearDownClass_body_def db_example_def)
  note th = tearDownClass_order [of "''aiida@localhost''" db_example, unfolded Let_def]
  from th one have len: "length ?t = 7"
    and t5: "?t ! 5 = (?t ! 4)\<lparr>users := filter (\<lambda>u. u \<noteq> ''aiida@localhost'') (users (?t ! 4))\<rparr>"
    and t6: "?t ! 6 = (?t ! 5)\<lparr>computers := []\<rparr>"
    by simp_all
  from th have all: "\<forall>i. Suc i < length ?t \<longrightarrow>
           (nodes (?t ! Suc i) \<noteq> nodes (?t ! i) \<longrightarrow> links (?t ! i) = [])
         \<and> (users (?t ! Suc i) \<noteq> users (?t ! i) \<or> computers (?t ! Suc i) \<noteq> computers (?t ! i)
              \<longrightarrow> nodes (?t ! i) = [])"
    by simp
  from all [rule_format, of 3] len n have l3: "links (?t ! 3) = []" by simp
  have u5: "users (?t ! 5) = []" and c5: "computers (?t ! 5) = [''localhost'']"
    unfolding t5 t4 by simp_all
  have c6: "computers (?t ! 6) = []" unfolding t6 by simp
  from c5 c6 have c: "computers (?t ! 6) \<noteq> computers (?t ! 5)" by simp
  from all [rule_format, of 5] len c have n5: "nodes (?t ! 5) = []" by simp
  from one len t4 u5 c5 c6 n l3 n5 show ?thesis by simp
qed

section \<open>Permuting the bands within the k-points\<close>

lemma map_sort_permuted:
  "list_all2 (\<lambda>r r'. mset r = mset r') a b \<Longrightarrow> map sort a = map sort (b :: real list list)"
proof (induction rule: list_all2_induct)
  case Nil
  show ?case by simp
next
  case (Cons x xs y ys)
  from Cons.hyps(1) have "sort x = sort y"
    by (metis properties_for_sort mset_sort sorted_sort)
  with Cons.IH show ?case by simp
qed

lemma mset_column_permuted:
  assumes "list_all2 (list_all2 (\<lambda>r r'. mset r = mset r')) a b"
    and "\<forall>s \<in> set a. k < length s"
  shows "map (\<lambda>s. mset (s ! k)) a = map (\<lambda>s. mset (s ! k)) (b :: real list list list)"
  using assms
proof (induction rule: list_all2_induct)
  case Nil
  show ?case by simp
next
  case (Cons x xs y ys)
  from Cons.prems have k: "k < length x" by simp
  from list_all2_nthD [OF Cons.hyps(1) k] have "mset (x ! k) = mset (y ! k)" .
  with Cons show ?case by simp
qed

lemma concatenate_axis1_permuted:
  assumes p: "list_all2 (list_all2 (\<lambda>r r'. mset r = mset r')) a (b :: real list list list)"
    and al: "list_all (\<lambda>s. length s = length (hd a)) a"
  shows "(\<exists>e. concatenate_axis1 a = Inl e \<and> concatenate_axis1 b = Inl e)
       \<or> (\<exists>rows rows'. concatenate_axis1 a = Inr rows \<and> concatenate_axis1 b = Inr rows'
             \<and> map sort rows = map sort rows')"
proof (cases a)
  case Nil
  with p have "b = []" by simp
  with Nil show ?thesis by (simp add: concatenate_axis1_def)
next
  case (Cons a0 as)
  with p obtain b0 bs where b: "b = b0 # bs" and l0: "length a0 = length b0"
    by (auto simp: list_all2_Cons1 dest: list_all2_lengthD)
  have "sort (concat (map (\<lambda>s. s ! k) a)) = sort (concat (map (\<lambda>s. s ! k) b))"
    if "k < length a0" for k
  proof -
    from al that Cons have "\<forall>s \<in> set a. k < length s"
      by (auto simp: list_all_iff)
    with p have "map (\<lambda>s. mset (s ! k)) a = map (\<lambda>s. mset (s ! k)) b"
      by (rule mset_column_permuted)
    then have "mset (concat (map (\<lambda>s. s ! k) a)) = mset (concat (map (\<lambda>s. s ! k) b))"
      by (simp add: mset_concat comp_def)
    then show ?thesis
      by (metis properties_for_sort mset_sort sorted_sort)
  qed
  then have "map sort (map (\<lambda>k. concat (map (\<lambda>s. s ! k) a)) [0..<length a0])
           = map sort (map (\<lambda>k. concat (map (\<lambda>s. s ! k) b)) [0..<length b0])"
    using l0 by simp
  with Cons b show ?thesis
    by (simp add: concatenate_axis1_def)
qed

lemma join_spins_permuted:
  assumes "permuted_within_kpoints a b" and "spins_aligned a"
  shows "ndim a = ndim b
       \<and> ((\<exists>e. join_spins a = Inl e \<and> join_spins b = Inl e)
          \<or> (\<exists>rows rows'. join_spins a = Inr rows \<and> join_spins b = Inr rows'
                \<and> map sort rows = map sort rows'))"
proof (cases a)
  case (Arr2 x)
  with assms obtain y where "b = Arr2 y" by (cases b) auto
  with Arr2 assms show ?thesis
    by (simp add: join_spins_def map_sort_permuted)
next
  case (Arr3 x)
  with assms obtain y where "b = Arr3 y" by (cases b) auto
  with Arr3 assms concatenate_axis1_permuted [of x y] show ?thesis
    by (simp add: join_spins_def)
qed

lemma classify_homo_lumo_ndim:
  "ndim sb = ndim sb' \<Longrightarrow> classify_homo_lumo sb n h l = classify_homo_lumo sb' n h l"
  by (simp add: classify_homo_lumo_def)

lemma bandgap_from_electrons_sorted:
  assumes "ndim sb = ndim sb'" and "map sort b = map sort b'"
  shows "bandgap_from_electrons sb b n = bandgap_from_electrons sb' b' n"
  using assms classify_homo_lumo_ndim [OF assms(1)]
  by (simp add: bandgap_from_electrons_def)

lemma bandgap_from_fermi_sorted:
  assumes "map sort b = map sort b'"
  shows "bandgap_from_fermi b ef = bandgap_from_fermi b' ef"
  using assms by (simp add: bandgap_from_fermi_def)

text \<open>
  C5. With an explicit number of electrons and no Fermi energy, and likewise with an
  explicit Fermi energy, \<open>find_bandgap\<close> is invariant under permuting the band energies
  independently within each k-point: on the permuted bands it returns the same result,
  or raises the same exception, as on the original ones.
\<close>

theorem find_bandgap_permutation_invariant:
  assumes stored: "arrays bandsdata ''bands'' = Some a"
    and perm: "permuted_within_kpoints a a'"
    and al: "spins_aligned a"
    and given: "number_electrons \<noteq> None \<or> fermi_energy \<noteq> None"
  shows "find_bandgap ar (bandsdata\<lparr>arrays := (arrays bandsdata)(''bands'' \<mapsto> a')\<rparr>)
           number_electrons fermi_energy
       = find_bandgap ar bandsdata number_electrons fermi_energy"
proof -
  let ?bd' = "bandsdata\<lparr>arrays := (arrays bandsdata)(''bands'' \<mapsto> a')\<rparr>"
  have g: "get_bands bandsdata False False = Inr (Bands a)"
    using stored by (rule get_bands_only_bands)
  have g': "get_bands ?bd' False False = Inr (Bands a')"
    by (rule get_bands_only_bands) simp
  from join_spins_permuted [OF perm al] have nd: "ndim a = ndim a'"
    and js: "(\<exists>e. join_spins a = Inl e \<and> join_spins a' = Inl e)
          \<or> (\<exists>rows rows'. join_spins a = Inr rows \<and> join_spins a' = Inr rows'
                \<and> map sort rows = map sort rows')"
    by simp_all
  from js show ?thesis
  proof (elim disjE exE conjE)
    fix e assume "join_spins a = Inl e" "join_spins a' = Inl e"
    then show ?thesis by (simp add: find_bandgap_def g g')
  next
    fix rows rows'
    assume r: "join_spins a = Inr rows" and r': "join_spins a' = Inr rows'"
      and s: "map sort rows = map sort rows'"
    show ?thesis
    proof (cases fermi_energy)
      case (Some ef)
      with r r' bandgap_from_fermi_sorted [OF s] show ?thesis
        by (simp add: find_bandgap_def g g')
    next
      case None
      with given obtain n where "number_electrons = Some n" by auto
      with None r r' bandgap_from_electrons_sorted [OF nd s] show ?thesis
        by (simp add: find_bandgap_def g g')
    qed
  qed
qed

theorem find_bandgap_permutation_invariant_witness:
  "permuted_within_kpoints (Arr3 [[[1, 3, 5], [2, 4, 6]], [[1, 3, 5], [2, 4, 7]]])
                           (Arr3 [[[5, 3, 1], [2, 6, 4]], [[3, 1, 5], [7, 4, 2]]])
   \<and> find_bandgap exact_arith (bands_two_spins\<lparr>arrays := (arrays bands_two_spins)
          (''bands'' \<mapsto> Arr3 [[[5, 3, 1], [2, 6, 4]], [[3, 1, 5], [7, 4, 2]]])\<rparr>) (Some 4) None
       = find_bandgap exact_arith bands_two_spins (Some 4) None
   \<and> find_bandgap exact_arith (bands_two_spins\<lparr>arrays := (arrays bands_two_spins)
          (''bands'' \<mapsto> Arr3 [[[5, 3, 1], [2, 6, 4]], [[3, 1, 5], [7, 4, 2]]])\<rparr>) None (Some 4)
       = find_bandgap exact_arith bands_two_spins None (Some 4)
   \<and> find_bandgap exact_arith bands_two_spins (Some 4) None = Inr (True, Some 1)"
proof -
  have stored: "arrays bands_two_spins ''bands''
                  = Some (Arr3 [[[1, 3, 5], [2, 4, 6]], [[1, 3, 5], [2, 4, 7]]])"
    by (simp add: bands_two_spins_def)
  have perm: "permuted_within_kpoints (Arr3 [[[1, 3, 5], [2, 4, 6]], [[1, 3, 5], [2, 4, 7]]])
                           (Arr3 [[[5, 3, 1], [2, 6, 4]], [[3, 1, 5], [7, 4, 2]]])"
    by simp
  have al: "spins_aligned (Arr3 [[[1, 3, 5], [2, 4, 6]], [[1, 3, 5], [2, 4, 7 :: real]]])"
    by simp
  have g1: "Some (4 :: real) \<noteq> None \<or> (None :: real option) \<noteq> None" by simp
  have g2: "(None :: real option) \<noteq> None \<or> Some (4 :: real) \<noteq> None" by simp
  have r: "find_bandgap exact_arith bands_two_spins (Some 4) None = Inr (True, Some 1)"
    by (simp add: find_bandgap_eval bands_two_spins_def)
  from find_bandgap_permutation_invariant [OF stored perm al g1]
       find_bandgap_permutation_invariant [OF stored perm al g2] perm r
  show ?thesis by simp
qed

section \<open>The analysis on the Fermi energy\<close>

lemma py_max_Max: "xs \<noteq> [] \<Longrightarrow> py_max xs = Inr (Max (set xs))"
  using Max.set_eq_fold [of "hd xs" "tl xs"] by (cases xs) (simp_all add: py_max_def)

lemma py_min_Min: "xs \<noteq> [] \<Longrightarrow> py_min xs = Inr (Min (set xs))"
  using Min.set_eq_fold [of "hd xs" "tl xs"] by (cases xs) (simp_all add: py_min_def)

lemma py_max_Nil: "py_max [] = Inl ValueError"
  by (simp add: py_max_def)

lemma py_min_Nil: "py_min [] = Inl ValueError"
  by (simp add: py_min_def)

lemma emap_Inr: "(\<And>x. x \<in> set xs \<Longrightarrow> f x = Inr (g x)) \<Longrightarrow> emap f xs = Inr (map g xs)"
  by (induction xs) simp_all

lemma band_levels_nonempty:
  assumes "rows \<noteq> []" and "l \<in> set (band_levels rows)"
  shows "l \<noteq> []"
  using assms by (cases rows) (auto simp: band_levels_def transpose_np_def)

lemma max_mins_of_levels:
  assumes "rows \<noteq> []"
  shows "emap (\<lambda>i. ebind (py_max i) (\<lambda>mx. ebind (py_min i) (\<lambda>mn. Inr (mx, mn))))
           (band_levels rows)
         = Inr (map (\<lambda>l. (Max (set l), Min (set l))) (band_levels rows))"
proof (rule emap_Inr)
  fix l assume "l \<in> set (band_levels rows)"
  with assms have "l \<noteq> []" by (rule band_levels_nonempty)
  then show "ebind (py_max l) (\<lambda>mx. ebind (py_min l) (\<lambda>mn. Inr (mx, mn)))
             = Inr (Max (set l), Min (set l))"
    by (simp add: py_max_Max py_min_Min)
qed

text \<open>The analysis on the Fermi energy, with the builtins replaced by what they compute.\<close>

lemma bandgap_from_fermi_levels:
  assumes ne: "concat rows \<noteq> []"
    and lo: "Min (set (concat rows)) \<le> ef"
    and hi: "ef \<le> Max (set (concat rows))"
  shows "bandgap_from_fermi rows ef =
     (let levels = band_levels rows;
          below = filter (\<lambda>l. Max (set l) < ef) levels;
          above = filter (\<lambda>l. ef < Min (set l)) levels
      in if \<exists>l \<in> set levels. Min (set l) < ef \<and> ef < Max (set l) then Inr (False, None)
         else if (\<exists>l \<in> set levels. Max (set l) = ef) \<and> (\<exists>l \<in> set levels. Min (set l) = ef)
         then Inr (False, Some 0)
         else if below = [] \<or> above = [] then Inl ValueError
         else Inr (True, Some (Min (set (map (\<lambda>l. Min (set l)) above))
                               - Max (set (map (\<lambda>l. Max (set l)) below)))))"
proof -
  from ne have rows: "rows \<noteq> []" by auto
  let ?levels = "band_levels rows"
  let ?mm = "map (\<lambda>l. (Max (set l), Min (set l))) ?levels"
  let ?below = "filter (\<lambda>l. Max (set l) < ef) ?levels"
  let ?above = "filter (\<lambda>l. ef < Min (set l)) ?levels"
  have set_eq: "set (concat (map sort rows)) = set (concat rows)" by simp
  with ne have ne': "concat (map sort rows) \<noteq> []" by (metis set_empty)
  have mx: "py_max (concat (map sort rows)) = Inr (Max (set (concat rows)))"
    using py_max_Max [OF ne'] set_eq by simp
  have mn: "py_min (concat (map sort rows)) = Inr (Min (set (concat rows)))"
    using py_min_Min [OF ne'] set_eq by simp
  have cross: "list_ex (\<lambda>i. snd i < ef \<and> ef < fst i) ?mm
               = (\<exists>l \<in> set ?levels. Min (set l) < ef \<and> ef < Max (set l))"
    by (auto simp: list_ex_iff)
  have touch1: "list_ex (\<lambda>i. fst i = ef) ?mm = (\<exists>l \<in> set ?levels. Max (set l) = ef)"
    by (auto simp: list_ex_iff)
  have touch2: "list_ex (\<lambda>i. snd i = ef) ?mm = (\<exists>l \<in> set ?levels. Min (set l) = ef)"
    by (auto simp: list_ex_iff)
  have fb: "map fst (filter (\<lambda>i. fst i < ef) ?mm) = map (\<lambda>l. Max (set l)) ?below"
    by (simp add: filter_map comp_def)
  have fa: "map snd (filter (\<lambda>i. snd i > ef) ?mm) = map (\<lambda>l. Min (set l)) ?above"
    by (simp add: filter_map comp_def)
  have tail: "ebind (py_max (map (\<lambda>l. Max (set l)) ?below)) (\<lambda>homo.
              ebind (py_min (map (\<lambda>l. Min (set l)) ?above)) (\<lambda>lumo.
              let gap = lumo - homo
              in if gap \<le> 0 then Inl PyException else Inr (True, Some gap)))
            = (if ?below = [] \<or> ?above = [] then Inl ValueError
               else Inr (True, Some (Min (set (map (\<lambda>l. Min (set l)) ?above))
                                     - Max (set (map (\<lambda>l. Max (set l)) ?below)))))"
  proof (cases "?below = [] \<or> ?above = []")
    case True
    then show ?thesis
      by (cases "?below = []") (simp_all add: py_max_Nil py_min_Nil py_max_Max)
  next
    case False
    then have b: "map (\<lambda>l. Max (set l)) ?below \<noteq> []" and a: "map (\<lambda>l. Min (set l)) ?above \<noteq> []"
      by simp_all
    from b have "set (map (\<lambda>l. Max (set l)) ?below) \<noteq> {}" by (metis set_empty)
    then have "Max (set (map (\<lambda>l. Max (set l)) ?below)) \<in> set (map (\<lambda>l. Max (set l)) ?below)"
      by (rule Max_in [OF finite_set])
    then have hb: "Max (set (map (\<lambda>l. Max (set l)) ?below)) < ef" by auto
    from a have "set (map (\<lambda>l. Min (set l)) ?above) \<noteq> {}" by (metis set_empty)
    then have "Min (set (map (\<lambda>l. Min (set l)) ?above)) \<in> set (map (\<lambda>l. Min (set l)) ?above)"
      by (rule Min_in [OF finite_set])
    then have ha: "ef < Min (set (map (\<lambda>l. Min (set l)) ?above))" by auto
    from hb ha have "\<not> Min (set (map (\<lambda>l. Min (set l)) ?above))
                    - Max (set (map (\<lambda>l. Max (set l)) ?below)) \<le> 0"
      by simp
    with False show ?thesis
      by (simp add: py_max_Max [OF b] py_min_Min [OF a] Let_def)
  qed
  have "bandgap_from_fermi rows ef =
      (if \<exists>l \<in> set ?levels. Min (set l) < ef \<and> ef < Max (set l) then Inr (False, None)
       else if (\<exists>l \<in> set ?levels. Max (set l) = ef) \<and> (\<exists>l \<in> set ?levels. Min (set l) = ef)
       then Inr (False, Some 0)
       else ebind (py_max (map (\<lambda>l. Max (set l)) ?below)) (\<lambda>homo.
            ebind (py_min (map (\<lambda>l. Min (set l)) ?above)) (\<lambda>lumo.
            let gap = lumo - homo
            in if gap \<le> 0 then Inl PyException else Inr (True, Some gap))))"
    unfolding bandgap_from_fermi_def Let_def
    using lo hi
    by (simp only: max_mins_of_levels [OF rows, unfolded band_levels_def] mx mn ebind_Inr
          cross [unfolded band_levels_def] touch1 [unfolded band_levels_def]
          touch2 [unfolded band_levels_def] fb [unfolded band_levels_def]
          fa [unfolded band_levels_def] band_levels_def)
       (simp add: not_less [symmetric])
  then show ?thesis
    unfolding tail by (simp add: Let_def)
qed

lemma find_bandgap_fermi_only:
  assumes "arrays bandsdata ''bands'' = Some stored" and "join_spins stored = Inr rows"
  shows "find_bandgap ar bandsdata None (Some ef) = bandgap_from_fermi rows ef"
  using assms by (simp add: find_bandgap_def truthy_def get_bands_only_bands)




text \<open>In the remaining case a builtin is applied to the empty list.\<close>

lemma find_bandgap_fermi_no_level:
  assumes stored: "arrays bandsdata ''bands'' = Some stored"
    and rows: "join_spins stored = Inr rows"
    and ne: "concat rows \<noteq> []"
    and lo: "Min (set (concat rows)) \<le> fermi_energy"
    and hi: "fermi_energy \<le> Max (set (concat rows))"
    and nc: "\<not> (\<exists>l \<in> set (band_levels rows). Min (set l) < fermi_energy \<and> fermi_energy < Max (set l))"
    and nt: "\<not> ((\<exists>l \<in> set (band_levels rows). Max (set l) = fermi_energy)
              \<and> (\<exists>l \<in> set (band_levels rows). Min (set l) = fermi_energy))"
    and none: "filter (\<lambda>l. Max (set l) < fermi_energy) (band_levels rows) = []
             \<or> filter (\<lambda>l. fermi_energy < Min (set l)) (band_levels rows) = []"
  shows "find_bandgap ar bandsdata None (Some fermi_energy) = Inl ValueError"
  unfolding find_bandgap_fermi_only [OF stored rows] bandgap_from_fermi_levels [OF ne lo hi]
  using nc nt none by (simp add: Let_def)



section \<open>Finite band energies as floats\<close>

text \<open>
  On arrays whose entries are all finite, the embedding of \<open>find_bandgap\<close> on floats agrees
  with the main model, step by step.
\<close>

lemma ndim_map_nparray [simp]: "ndim (map_nparray f a) = ndim a"
  by (cases a) simp_all

lemma finite_values_Finite: "concat (map (finite_value \<circ> Finite) xs) = xs"
  by (induction xs) simp_all

lemma np_sort_f_Finite: "np_sort_f (map Finite xs) = map Finite (sort xs)"
proof -
  have "filter (\<lambda>x. x = c) (map Finite xs) = []" if "\<And>r. c \<noteq> Finite r" for c
    using that by (induction xs) auto
  then show ?thesis by (simp add: np_sort_f_def finite_values_Finite)
qed

lemma fold_min_Finite:
  "fold (\<lambda>item m. if float_less item m then item else m) (map Finite ys) (Finite x)
     = Finite (fold min ys x)"
  by (induction ys arbitrary: x) (auto simp: min_def)

lemma fold_max_Finite:
  "fold (\<lambda>item m. if float_less m item then item else m) (map Finite ys) (Finite x)
     = Finite (fold max ys x)"
  by (induction ys arbitrary: x) (auto simp: max_def)

lemma py_min_f_Finite: "py_min_f (map Finite xs) = map_sum id Finite (py_min xs)"
  by (cases xs) (simp_all add: py_min_f_def py_min_def fold_min_Finite)

lemma py_max_f_Finite: "py_max_f (map Finite xs) = map_sum id Finite (py_max xs)"
  by (cases xs) (simp_all add: py_max_f_def py_max_def fold_max_Finite)

lemma ebind_map_sum: "ebind (map_sum id f m) g = ebind m (\<lambda>x. g (f x))"
  by (cases m) simp_all

lemma map_sum_ebind: "map_sum id f (ebind m g) = ebind m (\<lambda>x. map_sum id f (g x))"
  by (cases m) simp_all

lemma reraise_map_sum: "reraise c r (map_sum id f m) = map_sum id f (reraise c r m)"
  by (cases m) simp_all

lemma np_index_map: "np_index (map f xs) i = map_sum id f (np_index xs i)"
  by (auto simp: np_index_def)

lemma emap_map_sum:
  assumes "\<And>x. g (h x) = map_sum id f (g' x)"
  shows "emap g (map h xs) = map_sum id (map f) (emap g' xs)"
  by (induction xs) (auto simp: assms split: sum.splits)

lemma gap_cases_Finite:
  "(if x = xa then Inr (False, Some (Finite 0))
    else if float_less (float_sub (Finite x) (Finite xa)) (Finite 0) then Inr (False, None)
    else Inr (True, Some (float_sub (Finite x) (Finite xa))))
   = map_sum id result_as_floats
       (if x = xa then Inr (False, Some 0)
        else if x - xa < 0 then Inr (False, None)
        else Inr (True, Some (x - xa)))"
  by (simp add: result_as_floats_def)

lemma classify_homo_lumo_f_Finite:
  "classify_homo_lumo_f (map_nparray Finite sb) n (map Finite homo) (map Finite lumo)
     = map_sum id result_as_floats (classify_homo_lumo sb n homo lumo)"
proof (cases "n mod 2 = 1 \<and> ndim sb = 2")
  case True
  then show ?thesis
    by (simp add: classify_homo_lumo_f_def classify_homo_lumo_def result_as_floats_def)
next
  case False
  then show ?thesis
    by (auto simp: classify_homo_lumo_f_def classify_homo_lumo_def py_min_f_Finite
        py_max_f_Finite ebind_map_sum map_sum_ebind Let_def gap_cases_Finite)
qed

text \<open>On finite energies the analysis on floats is the analysis of the main model.\<close>

lemma bandgap_from_electrons_f_Finite:
  "bandgap_from_electrons_f (map_nparray Finite sb) (map (map Finite) rows) n
     = map_sum id result_as_floats (bandgap_from_electrons sb rows n)"
proof -
  have idx: "emap (\<lambda>i. np_index i k) (map (np_sort_f \<circ> map Finite) rows)
             = map_sum id (map Finite) (emap (\<lambda>i. np_index i k) (map sort rows))" for k
  proof -
    have e: "map (np_sort_f \<circ> map Finite) rows = map (map Finite) (map sort rows)"
      by (simp add: np_sort_f_Finite)
    show ?thesis
      unfolding e
      by (rule emap_map_sum [where g = "\<lambda>i. np_index i k" and h = "map Finite"
            and f = Finite and g' = "\<lambda>i. np_index i k"]) (rule np_index_map)
  qed
  show ?thesis
    by (simp add: bandgap_from_electrons_f_def bandgap_from_electrons_def Let_def idx
        ebind_map_sum map_sum_ebind reraise_map_sum classify_homo_lumo_f_Finite)
qed

lemma concat_column_map:
  "\<forall>s \<in> set spins. k < length s \<Longrightarrow>
     concat (map (\<lambda>s. s ! k) (map (map (map f)) spins)) = map f (concat (map (\<lambda>s. s ! k) spins))"
  by (induction spins) simp_all

lemma concatenate_axis1_Finite:
  assumes "list_all (\<lambda>s. length s = length (hd spins)) spins"
  shows "concatenate_axis1 (map (map (map Finite)) spins)
           = map_sum id (map (map Finite)) (concatenate_axis1 spins)"
proof (cases spins)
  case Nil
  then show ?thesis by (simp add: concatenate_axis1_def)
next
  case (Cons a as)
  have "concat (map (\<lambda>s. s ! k) (map (map (map Finite)) spins))
          = map Finite (concat (map (\<lambda>s. s ! k) spins))" if "k < length a" for k
  proof (rule concat_column_map)
    from assms that Cons show "\<forall>s \<in> set spins. k < length s"
      by (auto simp: list_all_iff)
  qed
  then have "map (\<lambda>k. concat (map (\<lambda>s. s ! k) (map (map (map Finite)) spins))) [0..<length a]
           = map (map Finite) (map (\<lambda>k. concat (map (\<lambda>s. s ! k) spins)) [0..<length a])"
    by simp
  with Cons show ?thesis
    unfolding concatenate_axis1_def by simp
qed

lemma join_spins_Finite:
  assumes "spins_aligned a"
  shows "join_spins (map_nparray Finite a) = map_sum id (map (map Finite)) (join_spins a)"
  using assms by (cases a) (simp_all add: join_spins_def concatenate_axis1_Finite)

lemma find_bandgap_f_Finite:
  assumes "\<And>a. arrays bd ''bands'' = Some a \<Longrightarrow> spins_aligned a"
  shows "find_bandgap_f (as_floats bd) n
           = map_sum id result_as_floats (find_bandgap ar bd (Some n) None)"
proof (cases "arrays bd ''bands''")
  case None
  then show ?thesis
    by (simp add: find_bandgap_f_def find_bandgap_def truthy_def as_floats_def get_bands_def
        get_array_def)
next
  case (Some a)
  with assms have al: "spins_aligned a" by simp
  have g: "get_bands (as_floats bd) False False = Inr (Bands (map_nparray Finite a))"
    using Some by (simp add: as_floats_def get_bands_def get_array_def)
  have g': "get_bands bd False False = Inr (Bands a)"
    using Some by (rule get_bands_only_bands)
  show ?thesis
    by (simp add: find_bandgap_f_def find_bandgap_def truthy_def g g' join_spins_Finite [OF al]
        ebind_map_sum map_sum_ebind bandgap_from_electrons_f_Finite)
qed

text \<open>
  So with finite band energies the analysis on floats returns the shapes of C1 as well.
\<close>

lemma find_bandgap_f_finite_shape:
  assumes al: "\<And>a. arrays bd ''bands'' = Some a \<Longrightarrow> spins_aligned a"
    and ret: "find_bandgap_f (as_floats bd) n = Inr (is_insulator, gap)"
  shows "(is_insulator \<and> (\<exists>g. gap = Some (Finite g) \<and> 0 < g))
       \<or> (\<not> is_insulator \<and> (gap = None \<or> gap = Some (Finite 0)))"
proof -
  from ret find_bandgap_f_Finite [OF al, where n = n and ar = exact_arith]
  have "map_sum id result_as_floats (find_bandgap exact_arith bd (Some n) None)
          = Inr (is_insulator, gap)"
    by simp
  then obtain ins g where r: "find_bandgap exact_arith bd (Some n) None = Inr (ins, g)"
    and e: "result_as_floats (ins, g) = (is_insulator, gap)"
    by (cases "find_bandgap exact_arith bd (Some n) None") auto
  from find_bandgap_shape [OF r] e show ?thesis
    by (auto simp: result_as_floats_def)
qed

end
